theory Spec2Isabelle
  imports Complex_Main "HOL-Library.Word"
begin

section \<open>Python values: strings, bytes, exceptions\<close>

text \<open>
  A Python \<open>str\<close> is modelled as an Isabelle \<open>string\<close> whose characters are the
  code points of the text (code points below 256; addresses, hashes and signatures
  are ASCII hex text). \<open>len\<close> is then \<open>length\<close>. A Python \<open>bytes\<close> value is a list
  of 8-bit words. Python's unbounded \<open>int\<close> is \<open>int\<close>; a \<open>float\<close> of seconds is a
  \<open>real\<close> (rounding of floating point arithmetic is not modelled).
\<close>

type_synonym byte = "8 word"
type_synonym bytes = "byte list"

type_synonym Address = string
type_synonym Hash = string
type_synonym Signature = string

text \<open>
  Exceptions are values. \<open>TimeoutError\<close> carries the text of its f-string up to the
  number of seconds, and the number itself (the decimal rendering of a float is left
  out). \<open>RpcException\<close> is the plain \<open>Exception\<close> raised by the RPC client,
  \<open>StructError\<close> is \<open>struct.error\<close>, \<open>TypeError\<close> is raised by a dataclass
  constructor called with the wrong keywords.
\<close>

datatype py_exception =
    ValueError string
  | TimeoutError string real
  | RpcException string
  | StructError
  | TypeError string


text \<open>Statements in sequence: the first exception raised ends the block.\<close>

definition seq :: "py_exception + unit \<Rightarrow> py_exception + 'a \<Rightarrow> py_exception + 'a" where
  "seq a b = (case a of Inl e \<Rightarrow> Inl e | Inr _ \<Rightarrow> b)"

subsection \<open>\<open>str.encode()\<close>: UTF-8\<close>

text \<open>A code point below 128 is one byte, one from 128 to 255 is two bytes.\<close>

definition utf8_char :: "char \<Rightarrow> bytes" where
  "utf8_char c =
     (let n = (of_char c :: nat) in
      if n < 128 then [of_nat n]
      else [of_nat (192 + n div 64), of_nat (128 + n mod 64)])"

definition encode :: "string \<Rightarrow> bytes" where
  "encode s = concat (map utf8_char s)"

subsection \<open>\<open>str(int)\<close>: decimal text\<close>

fun str_nat :: "nat \<Rightarrow> string" where
  "str_nat n =
     (if n < 10 then [char_of (48 + n)]
      else str_nat (n div 10) @ [char_of (48 + n mod 10)])"

declare str_nat.simps [simp del]

definition str_int :: "int \<Rightarrow> string" where
  "str_int i = (if i < 0 then CHR ''-'' # str_nat (nat (- i)) else str_nat (nat i))"

subsection \<open>\<open>bytes.hex()\<close> and \<open>bytes.fromhex()\<close>\<close>

definition hexdigit :: "nat \<Rightarrow> char" where
  "hexdigit n = (if n < 10 then char_of (48 + n) else char_of (87 + n))"

definition hex_byte :: "byte \<Rightarrow> string" where
  "hex_byte b = [hexdigit (unat b div 16), hexdigit (unat b mod 16)]"

definition hex :: "bytes \<Rightarrow> string" where
  "hex bs = concat (map hex_byte bs)"

definition hexval :: "char \<Rightarrow> nat option" where
  "hexval c =
     (let n = (of_char c :: nat) in
      if 48 \<le> n \<and> n \<le> 57 then Some (n - 48)
      else if 97 \<le> n \<and> n \<le> 102 then Some (n - 87)
      else if 65 \<le> n \<and> n \<le> 70 then Some (n - 55)
      else None)"

text \<open>ASCII whitespace, which \<open>bytes.fromhex\<close> skips between two bytes.\<close>

definition is_space :: "char \<Rightarrow> bool" where
  "is_space c = ((of_char c :: nat) \<in> {9, 10, 11, 12, 13, 32})"

text \<open>
  \<open>bytes.fromhex\<close>: \<open>None\<close> stands for the \<open>ValueError\<close> it raises on a character
  that is no hex digit, or on a digit with no partner.
\<close>

fun fromhex :: "string \<Rightarrow> bytes option" where
  "fromhex [] = Some []"
| "fromhex [c] = (if is_space c then Some [] else None)"
| "fromhex (c # d # cs) =
     (if is_space c then fromhex (d # cs)
      else (case (hexval c, hexval d) of
              (Some h, Some l) \<Rightarrow> map_option (\<lambda>bs. of_nat (16 * h + l) # bs) (fromhex cs)
            | _ \<Rightarrow> None))"

subsection \<open>\<open>struct.pack\<close> of an unsigned little-endian integer\<close>

fun le_bytes :: "nat \<Rightarrow> int \<Rightarrow> bytes" where
  "le_bytes 0 v = []"
| "le_bytes (Suc n) v = of_int (v mod 256) # le_bytes n (v div 256)"

text \<open>
  \<open>struct.pack("<Q", v)\<close> is \<open>pack_le 8 v\<close> and \<open>struct.pack("<I", v)\<close> is
  \<open>pack_le 4 v\<close>: \<open>struct.error\<close> when \<open>v\<close> does not fit the unsigned width.
\<close>

definition pack_le :: "nat \<Rightarrow> int \<Rightarrow> py_exception + bytes" where
  "pack_le n v =
     (if 0 \<le> v \<and> v < 2 ^ (8 * n) then Inr (le_bytes n v)
      else Inl StructError)"

text \<open>The unsigned integer a little-endian byte string stands for.\<close>

fun le_value :: "bytes \<Rightarrow> int" where
  "le_value [] = 0"
| "le_value (b # bs) = uint b + 256 * le_value bs"

section \<open>External primitives\<close>

text \<open>
  SHA-256 (\<open>hashlib\<close>) and Ed25519 (\<open>nacl.signing\<close>) are library code: the model takes
  them as parameters. \<open>ed_public\<close> derives the verify key of a 32-byte seed,
  \<open>ed_sign sk m\<close> is the 64-byte detached signature, \<open>ed_verify pk m s\<close> is false
  where \<open>VerifyKey.verify\<close> raises \<open>BadSignatureError\<close>.
\<close>

record prims =
  sha256 :: "bytes \<Rightarrow> bytes"
  ed_public :: "bytes \<Rightarrow> bytes"
  ed_sign :: "bytes \<Rightarrow> bytes \<Rightarrow> bytes"
  ed_verify :: "bytes \<Rightarrow> bytes \<Rightarrow> bytes \<Rightarrow> bool"

text \<open>What the Ed25519 library guarantees for every 32-byte seed.\<close>

definition ed25519_sound :: "prims \<Rightarrow> bool" where
  "ed25519_sound P =
     (\<forall>sk m. length sk = 32 \<longrightarrow>
        length (ed_public P sk) = 32 \<and> length (ed_sign P sk m) = 64 \<and>
        ed_verify P (ed_public P sk) m (ed_sign P sk m))"

section \<open>\<open>aether.keypair\<close>\<close>

record Keypair =
  secret_key :: bytes
  public_key :: bytes
  address :: Address

definition public_key_to_address :: "prims \<Rightarrow> bytes \<Rightarrow> Address" where
  "public_key_to_address P pk =
     (let hash_bytes = sha256 P pk;
          address_bytes = drop (length hash_bytes - 20) hash_bytes
      in ''0x'' @ hex address_bytes)"

text \<open>\<open>Keypair.__init__\<close>, given the seed of an already constructed signing key.\<close>

definition Keypair_init :: "prims \<Rightarrow> bytes \<Rightarrow> Keypair" where
  "Keypair_init P sk =
     \<lparr>secret_key = sk, public_key = ed_public P sk,
      address = public_key_to_address P (ed_public P sk)\<rparr>"

text \<open>\<open>nacl.signing.SigningKey(seed)\<close> raises unless the seed has 32 bytes.\<close>

definition from_secret_key :: "prims \<Rightarrow> bytes \<Rightarrow> py_exception + Keypair" where
  "from_secret_key P sk =
     (if length sk = 32 then Inr (Keypair_init P sk)
      else Inl (ValueError ''The seed must be exactly 32 bytes long''))"

definition from_seed :: "prims \<Rightarrow> string \<Rightarrow> py_exception + Keypair" where
  "from_seed P seed = from_secret_key P (sha256 P (encode seed))"

text \<open>
  \<open>Keypair.generate\<close>: \<open>SigningKey.generate()\<close> builds the key from the bytes the
  system's random source hands out, here the argument \<open>entropy\<close>.
\<close>

definition generate :: "prims \<Rightarrow> bytes \<Rightarrow> py_exception + Keypair" where
  "generate P entropy = from_secret_key P entropy"

definition Keypair_sign :: "prims \<Rightarrow> Keypair \<Rightarrow> bytes \<Rightarrow> Signature" where
  "Keypair_sign P k message = hex (ed_sign P (secret_key k) message)"

text \<open>
  \<open>Keypair.verify\<close>: every exception inside the \<open>try\<close> (a key that is not 32 bytes,
  a signature that is not hex or not 64 bytes, a bad signature) gives \<open>False\<close>.
\<close>

definition Keypair_verify :: "prims \<Rightarrow> Signature \<Rightarrow> bytes \<Rightarrow> bytes \<Rightarrow> bool" where
  "Keypair_verify P signature message pk =
     (if length pk \<noteq> 32 then False
      else (case fromhex signature of
              None \<Rightarrow> False
            | Some sig_bytes \<Rightarrow>
                if length sig_bytes \<noteq> 64 then False
                else ed_verify P pk message sig_bytes))"

section \<open>\<open>aether.types\<close>\<close>

record Transaction =
  tx_from_addr :: Address
  tx_to :: Address
  tx_value :: int
  tx_data :: "bytes option"
  tx_nonce :: int
  tx_signature :: "Signature option"
  tx_hash :: "Hash option"

text \<open>
  The dataclasses check no types. An attribute declared \<open>bytes\<close> holds a bytes object
  when the caller built the receipt as declared (\<open>Raw\<close>), and the text of the JSON
  reply when the receipt was built from a node's answer, as \<open>get_vcr\<close> does (\<open>Text\<close>).
\<close>

datatype blob = Raw bytes | Text string

record VerifiableComputeReceipt =
  vcr_job_id :: Hash
  vcr_provider :: Address
  vcr_result :: blob
  vcr_execution_trace :: Hash
  vcr_kzg_commitments :: "blob list"
  vcr_tee_attestation :: blob
  vcr_timestamp :: int

text \<open>\<open>JobStatus\<close> is a type hint only: the field holds whatever text the node sent.\<close>

record AIJob =
  job_id :: Hash
  job_creator :: Address
  job_model_hash :: Hash
  job_input_data :: bytes
  job_aic_locked :: int
  job_status :: string
  job_provider :: "Address option"
  job_result :: "bytes option"
  job_vcr :: "VerifiableComputeReceipt option"

record TransactionReceipt =
  rc_transaction_hash :: Hash
  rc_block_hash :: Hash
  rc_block_slot :: int
  rc_from_addr :: Address
  rc_to :: Address
  rc_status :: string
  rc_gas_used :: int
  rc_logs :: "(string \<times> string) list list"

section \<open>\<open>aether.transaction\<close>\<close>

record TransactionBuilder =
  b_from :: "Address option"
  b_to :: "Address option"
  b_value :: "int option"
  b_data :: "bytes option"
  b_nonce :: "int option"

definition builder_init :: TransactionBuilder where
  "builder_init = \<lparr>b_from = None, b_to = None, b_value = None, b_data = None, b_nonce = None\<rparr>"

definition builder_from_addr :: "Address \<Rightarrow> TransactionBuilder \<Rightarrow> TransactionBuilder" where
  "builder_from_addr a b = b\<lparr>b_from := Some a\<rparr>"

definition builder_to :: "Address \<Rightarrow> TransactionBuilder \<Rightarrow> TransactionBuilder" where
  "builder_to a b = b\<lparr>b_to := Some a\<rparr>"

definition builder_value :: "int \<Rightarrow> TransactionBuilder \<Rightarrow> TransactionBuilder" where
  "builder_value amount b = b\<lparr>b_value := Some amount\<rparr>"

definition builder_data :: "bytes \<Rightarrow> TransactionBuilder \<Rightarrow> TransactionBuilder" where
  "builder_data d b = b\<lparr>b_data := Some d\<rparr>"

definition builder_nonce :: "int \<Rightarrow> TransactionBuilder \<Rightarrow> TransactionBuilder" where
  "builder_nonce n b = b\<lparr>b_nonce := Some n\<rparr>"

text \<open>\<open>TransactionBuilder.build\<close>: the four \<open>is None\<close> checks, in the source's order.\<close>

definition build :: "TransactionBuilder \<Rightarrow> py_exception + Transaction" where
  "build b =
     (case b_from b of
        None \<Rightarrow> Inl (ValueError ''Transaction requires from address'')
      | Some from_a \<Rightarrow>
     (case b_to b of
        None \<Rightarrow> Inl (ValueError ''Transaction requires to address'')
      | Some to_a \<Rightarrow>
     (case b_value b of
        None \<Rightarrow> Inl (ValueError ''Transaction requires value'')
      | Some v \<Rightarrow>
     (case b_nonce b of
        None \<Rightarrow> Inl (ValueError ''Transaction requires nonce'')
      | Some n \<Rightarrow>
          Inr \<lparr>tx_from_addr = from_a, tx_to = to_a, tx_value = v, tx_data = b_data b,
               tx_nonce = n, tx_signature = None, tx_hash = None\<rparr>))))"

text \<open>\<open>tx.data or b""\<close>: \<open>None\<close> and the empty byte string both give \<open>b""\<close>.\<close>

definition data_or_empty :: "bytes option \<Rightarrow> bytes" where
  "data_or_empty d = (case d of None \<Rightarrow> [] | Some bs \<Rightarrow> bs)"

text \<open>
  \<open>TransactionBuilder._serialize\<close>: the parts are built in order, so a value that
  does not fit raises before the nonce is packed.
\<close>

definition serialize :: "Transaction \<Rightarrow> py_exception + bytes" where
  "serialize tx =
     (case pack_le 8 (tx_value tx) of
        Inl e \<Rightarrow> Inl e
      | Inr value_bytes \<Rightarrow>
     (case pack_le 4 (tx_nonce tx) of
        Inl e \<Rightarrow> Inl e
      | Inr nonce_bytes \<Rightarrow>
          Inr (encode (tx_from_addr tx) @ encode (tx_to tx) @ value_bytes @
               data_or_empty (tx_data tx) @ nonce_bytes)))"

text \<open>\<open>TransactionBuilder.sign\<close>.\<close>

definition sign_tx :: "prims \<Rightarrow> TransactionBuilder \<Rightarrow> Keypair \<Rightarrow> py_exception + Transaction" where
  "sign_tx P b keypair =
     (case build b of
        Inl e \<Rightarrow> Inl e
      | Inr tx \<Rightarrow>
     (case serialize tx of
        Inl e \<Rightarrow> Inl e
      | Inr tx_bytes \<Rightarrow>
          (let hash_bytes = sha256 P tx_bytes;
               hash_hex = ''0x'' @ hex hash_bytes;
               signature = Keypair_sign P keypair hash_bytes
           in Inr (tx\<lparr>tx_signature := Some signature, tx_hash := Some hash_hex\<rparr>))))"

definition transfer :: "Address \<Rightarrow> Address \<Rightarrow> int \<Rightarrow> int \<Rightarrow> TransactionBuilder" where
  "transfer from_a to_a amount n =
     builder_nonce n (builder_value amount (builder_to to_a (builder_from_addr from_a builder_init)))"

text \<open>\<open>TransactionBuilder.call\<close> (the value defaults to 0 at the call sites).\<close>

definition call_builder :: "Address \<Rightarrow> Address \<Rightarrow> bytes \<Rightarrow> int \<Rightarrow> int \<Rightarrow> TransactionBuilder" where
  "call_builder from_a contract d n v =
     builder_nonce n (builder_data d (builder_value v
       (builder_to contract (builder_from_addr from_a builder_init))))"

text \<open>\<open>TransactionHelper.create_transfer\<close>.\<close>

definition create_transfer :: "prims \<Rightarrow> Keypair \<Rightarrow> Address \<Rightarrow> int \<Rightarrow> int \<Rightarrow> py_exception + Transaction" where
  "create_transfer P keypair to_a amount n =
     sign_tx P (transfer (address keypair) to_a amount n) keypair"

text \<open>\<open>TransactionHelper.create_call\<close>.\<close>

definition create_call ::
  "prims \<Rightarrow> Keypair \<Rightarrow> Address \<Rightarrow> bytes \<Rightarrow> int \<Rightarrow> int \<Rightarrow> py_exception + Transaction" where
  "create_call P keypair contract d n v =
     sign_tx P (call_builder (address keypair) contract d n v) keypair"

section \<open>\<open>aether.client\<close>: the JSON-RPC client and its world\<close>

text \<open>
  The node, the network and the clock are outside the program. The environment gives
  the node's reply to the request with a given id, and the time that request takes.
  The world is what the program changes: the clock reading, the client's request
  counter and the requests sent so far.
\<close>

datatype param = PStr string | PVcr VerifiableComputeReceipt

text \<open>
  What \<open>json.dumps\<close> can encode: text, but no bytes object. The client hands the
  parameters to \<open>httpx\<close> as \<open>json=payload\<close>, which encodes them before anything is
  sent.
\<close>

fun json_blob :: "blob \<Rightarrow> bool" where
  "json_blob (Raw bs) = False"
| "json_blob (Text t) = True"

definition json_vcr :: "VerifiableComputeReceipt \<Rightarrow> bool" where
  "json_vcr v =
     (json_blob (vcr_result v) \<and> list_all json_blob (vcr_kzg_commitments v)
      \<and> json_blob (vcr_tee_attestation v))"

fun json_param :: "param \<Rightarrow> bool" where
  "json_param (PStr t) = True"
| "json_param (PVcr v) = json_vcr v"

text \<open>
  The \<open>result\<close> member of a reply: a dictionary with the fields of a job, of a
  transaction receipt, of a compute receipt, or of a verdict; a falsy value (\<open>{}\<close>,
  \<open>[]\<close>, \<open>0\<close>, \<open>""\<close>, \<open>false\<close>); or any other value.
\<close>

datatype rpc_data =
    DJob AIJob
  | DReceipt TransactionReceipt
  | DVcr VerifiableComputeReceipt
  | DVerdict "(string \<times> bool) list"
  | DFalsy
  | DOther

text \<open>
  A reply: a transport failure (\<open>httpx.HTTPError\<close>); a body with an \<open>error\<close> member
  that has a message and a code; a body whose \<open>error\<close> member is \<open>null\<close>; or a body
  whose \<open>result\<close> member is absent or \<open>null\<close> (\<open>None\<close>) or present.
\<close>

datatype reply =
    HttpFailure string
  | RpcError string int
  | RpcErrorNull
  | RpcResult "rpc_data option"

definition squote :: char where
  "squote = char_of (39 :: nat)"

record env =
  node :: "int \<Rightarrow> string \<Rightarrow> param list \<Rightarrow> reply"
  latency :: "int \<Rightarrow> real"

record world =
  now :: real
  request_id :: int
  sent :: "(string \<times> param list \<times> int) list"

text \<open>
  \<open>AetherClient._call\<close>. The counter is incremented first. Parameters that JSON cannot
  encode raise \<open>TypeError\<close> inside \<open>post\<close>, before a request leaves; it is no
  \<open>httpx.HTTPError\<close>, so it is not wrapped. Subscripting an \<open>error\<close> member that is
  \<open>null\<close> raises \<open>TypeError\<close> too, after the reply has arrived.
\<close>

definition rpc_call ::
  "env \<Rightarrow> world \<Rightarrow> string \<Rightarrow> param list \<Rightarrow> (py_exception + rpc_data option) \<times> world" where
  "rpc_call E w meth params =
     (let rid = request_id w + 1 in
      if \<not> list_all json_param params
        then (Inl (TypeError ''Object of type bytes is not JSON serializable''),
              w\<lparr>request_id := rid\<rparr>)
      else
        (let w' = w\<lparr>now := now w + latency E rid, request_id := rid,
                      sent := sent w @ [(meth, params, rid)]\<rparr>
         in (case node E rid meth params of
               HttpFailure e \<Rightarrow> (Inl (RpcException (''HTTP error: '' @ e)), w')
             | RpcError m c \<Rightarrow>
                 (Inl (RpcException (''RPC Error: '' @ m @ '' (code: '' @ str_int c @ '')'')), w')
             | RpcErrorNull \<Rightarrow>
                 (Inl (TypeError (squote # ''NoneType'' @ squote # '' object is not subscriptable'')),
                  w')
             | RpcResult r \<Rightarrow> (Inr r, w'))))"

text \<open>\<open>AetherClient.get_transaction_receipt\<close>.\<close>

definition get_transaction_receipt ::
  "env \<Rightarrow> world \<Rightarrow> Hash \<Rightarrow> (py_exception + TransactionReceipt option) \<times> world" where
  "get_transaction_receipt E w h =
     (case rpc_call E w ''getTransactionReceipt'' [PStr h] of
        (Inl e, w') \<Rightarrow> (Inl e, w')
      | (Inr None, w') \<Rightarrow> (Inr None, w')
      | (Inr (Some (DReceipt r)), w') \<Rightarrow> (Inr (Some r), w')
      | (Inr (Some _), w') \<Rightarrow> (Inl (TypeError ''TransactionReceipt''), w'))"

text \<open>\<open>asyncio.sleep\<close>: a delay that is not positive returns at once.\<close>

definition sleep :: "real \<Rightarrow> world \<Rightarrow> world" where
  "sleep delay w = w\<lparr>now := now w + max 0 delay\<rparr>"

text \<open>
  The \<open>while\<close> loop of \<open>AetherClient.wait_for_transaction\<close>. The loop may run forever
  (a poll interval of zero and a node that answers in no time), so the result is an
  option: \<open>None\<close> is a run that does not return.
\<close>

partial_function (option) tx_wait_loop ::
  "env \<Rightarrow> Hash \<Rightarrow> real \<Rightarrow> real \<Rightarrow> real \<Rightarrow> world
     \<Rightarrow> ((py_exception + TransactionReceipt) \<times> world) option" where
  "tx_wait_loop E h timeout poll_interval start_time w =
     (if now w - start_time < timeout then
        (case get_transaction_receipt E w h of
           (Inl e, w1) \<Rightarrow> Some (Inl e, w1)
         | (Inr (Some receipt), w1) \<Rightarrow> Some (Inr receipt, w1)
         | (Inr None, w1) \<Rightarrow>
             tx_wait_loop E h timeout poll_interval start_time (sleep poll_interval w1))
      else Some (Inl (TimeoutError (''Transaction '' @ h @ '' not confirmed within '') timeout), w))"

definition wait_for_transaction ::
  "env \<Rightarrow> Hash \<Rightarrow> real \<Rightarrow> real \<Rightarrow> world
     \<Rightarrow> ((py_exception + TransactionReceipt) \<times> world) option" where
  "wait_for_transaction E h timeout poll_interval w =
     tx_wait_loop E h timeout poll_interval (now w) w"

section \<open>\<open>aether.ai\<close>\<close>

text \<open>
  \<open>AIJobHelper.get_job\<close>: the bare \<open>except\<close> turns every failure of the call and of
  the \<open>AIJob\<close> constructor into \<open>None\<close>, and so does a falsy result.
\<close>

definition get_job :: "env \<Rightarrow> world \<Rightarrow> Hash \<Rightarrow> AIJob option \<times> world" where
  "get_job E w jid =
     (case rpc_call E w ''ai_getJob'' [PStr jid] of
        (Inr (Some (DJob j)), w') \<Rightarrow> (Some j, w')
      | (_, w') \<Rightarrow> (None, w'))"

text \<open>\<open>AIJobHelper.get_vcr\<close>, with the same bare \<open>except\<close>.\<close>

definition get_vcr :: "env \<Rightarrow> world \<Rightarrow> Hash \<Rightarrow> VerifiableComputeReceipt option \<times> world" where
  "get_vcr E w jid =
     (case rpc_call E w ''ai_getVCR'' [PStr jid] of
        (Inr (Some (DVcr v)), w') \<Rightarrow> (Some v, w')
      | (_, w') \<Rightarrow> (None, w'))"

text \<open>\<open>AIJobHelper.verify_vcr\<close>: the receipt's \<open>__dict__\<close> is the only parameter.\<close>

definition verify_vcr ::
  "env \<Rightarrow> world \<Rightarrow> VerifiableComputeReceipt \<Rightarrow> (py_exception + rpc_data option) \<times> world" where
  "verify_vcr E w vcr = rpc_call E w ''ai_verifyVCR'' [PVcr vcr]"

text \<open>The \<open>while\<close> loop of \<open>AIJobHelper.wait_for_job_completion\<close>.\<close>

partial_function (option) job_wait_loop ::
  "env \<Rightarrow> Hash \<Rightarrow> real \<Rightarrow> real \<Rightarrow> real \<Rightarrow> world
     \<Rightarrow> ((py_exception + AIJob) \<times> world) option" where
  "job_wait_loop E jid timeout poll_interval start_time w =
     (if now w - start_time < timeout then
        (case get_job E w jid of
           (None, w1) \<Rightarrow> Some (Inl (ValueError (''Job '' @ jid @ '' not found'')), w1)
         | (Some job, w1) \<Rightarrow>
             if job_status job \<in> set [''completed'', ''settled''] then Some (Inr job, w1)
             else if job_status job = ''challenged''
               then Some (Inl (ValueError (''Job '' @ jid @ '' is being challenged'')), w1)
             else job_wait_loop E jid timeout poll_interval start_time (sleep poll_interval w1))
      else Some (Inl (TimeoutError (''Job '' @ jid @ '' did not complete within '') timeout), w))"

definition wait_for_job_completion ::
  "env \<Rightarrow> Hash \<Rightarrow> real \<Rightarrow> real \<Rightarrow> world \<Rightarrow> ((py_exception + AIJob) \<times> world) option" where
  "wait_for_job_completion E jid timeout poll_interval w =
     job_wait_loop E jid timeout poll_interval (now w) w"

section \<open>\<open>aether_sdk.types\<close>\<close>

record ClientConfig =
  default_fee :: int
  default_gas_limit :: int

definition ClientConfig_default :: ClientConfig where
  "ClientConfig_default = \<lparr>default_fee = 2000000, default_gas_limit = 500000\<rparr>"

definition ensure_hex :: "string \<Rightarrow> string \<Rightarrow> py_exception + unit" where
  "ensure_hex v field =
     (if take 2 v = ''0x'' then Inr () else Inl (ValueError (field @ '' must be a hex string'')))"

definition ensure_positive_int :: "int \<Rightarrow> string \<Rightarrow> py_exception + unit" where
  "ensure_positive_int v field =
     (if v \<le> 0 then Inl (ValueError (field @ '' must be positive'')) else Inr ())"

section \<open>\<open>aether_sdk.transaction\<close>\<close>

record SdkTransaction =
  nonce :: int
  sender :: string
  sender_public_key :: string
  recipient :: string
  amount :: int
  fee :: int
  gas_limit :: int
  memo :: "string option"
  signature :: string
  reads :: "string list"
  writes :: "string list"

text \<open>
  \<open>Transaction.__post_init__\<close>, which the dataclass constructor runs on the fields it
  was given: the result is the constructed transaction, or the exception raised.
\<close>

definition post_init :: "SdkTransaction \<Rightarrow> py_exception + SdkTransaction" where
  "post_init tx =
     seq (ensure_hex (sender tx) ''sender'')
    (seq (ensure_hex (sender_public_key tx) ''sender_public_key'')
    (seq (ensure_hex (recipient tx) ''recipient'')
    (seq (ensure_hex (signature tx) ''signature'')
    (seq (ensure_positive_int (amount tx) ''amount'')
    (seq (ensure_positive_int (fee tx) ''fee'')
    (seq (ensure_positive_int (gas_limit tx) ''gas_limit'')
    (seq (ensure_positive_int (nonce tx + 1) ''nonce + 1'')
    (if length (signature tx) < 66
       then Inl (ValueError ''signature must be at least 64 bytes (hex)'')
     else if writes tx = [] then Inr (tx\<lparr>writes := writes tx @ [recipient tx]\<rparr>)
     else Inr tx))))))))"

subsection \<open>\<open>json.dumps(payload, sort_keys=True)\<close>\<close>

definition dquote :: char where
  "dquote = char_of (34 :: nat)"

definition backslash :: char where
  "backslash = char_of (92 :: nat)"

text \<open>The escapes of \<open>json.dumps\<close> with \<open>ensure_ascii\<close>, for code points below 256.\<close>

definition json_escape :: "char \<Rightarrow> string" where
  "json_escape c =
     (let n = (of_char c :: nat) in
      if n = 34 then [backslash, dquote]
      else if n = 92 then [backslash, backslash]
      else if n = 10 then [backslash, CHR ''n'']
      else if n = 13 then [backslash, CHR ''r'']
      else if n = 9 then [backslash, CHR ''t'']
      else if n = 8 then [backslash, CHR ''b'']
      else if n = 12 then [backslash, CHR ''f'']
      else if 32 \<le> n \<and> n \<le> 126 then [c]
      else [backslash, CHR ''u'', CHR ''0'', CHR ''0'', hexdigit (n div 16), hexdigit (n mod 16)])"

definition json_str :: "string \<Rightarrow> string" where
  "json_str s = dquote # concat (map json_escape s) @ [dquote]"

fun join :: "string \<Rightarrow> string list \<Rightarrow> string" where
  "join sep [] = []"
| "join sep [x] = x"
| "join sep (x # y # ys) = x @ sep @ join sep (y # ys)"

definition json_list :: "string list \<Rightarrow> string" where
  "json_list xs = ''['' @ join '', '' (map json_str xs) @ '']''"

definition json_member :: "string \<Rightarrow> string \<Rightarrow> string" where
  "json_member k v = json_str k @ '': '' @ v"

text \<open>
  The text that \<open>Transaction.hash\<close> digests: the payload's members in key order,
  \<open>amount\<close> and \<open>fee\<close> as strings of decimal digits, \<open>gas_limit\<close> and \<open>nonce\<close> as JSON
  numbers, an absent memo as \<open>null\<close>.
\<close>

definition hash_payload :: "SdkTransaction \<Rightarrow> string" where
  "hash_payload tx =
     ''{'' @ join '', ''
       [json_member ''amount'' (json_str (str_int (amount tx))),
        json_member ''fee'' (json_str (str_int (fee tx))),
        json_member ''gas_limit'' (str_int (gas_limit tx)),
        json_member ''memo'' (case memo tx of None \<Rightarrow> ''null'' | Some m \<Rightarrow> json_str m),
        json_member ''nonce'' (str_int (nonce tx)),
        json_member ''reads'' (json_list (reads tx)),
        json_member ''recipient'' (json_str (recipient tx)),
        json_member ''sender'' (json_str (sender tx)),
        json_member ''sender_public_key'' (json_str (sender_public_key tx)),
        json_member ''writes'' (json_list (writes tx))]
     @ ''}''"

text \<open>\<open>Transaction.hash\<close>.\<close>

definition sdk_hash :: "prims \<Rightarrow> SdkTransaction \<Rightarrow> string" where
  "sdk_hash P tx = ''0x'' @ hex (sha256 P (encode (hash_payload tx)))"

section \<open>\<open>aether_sdk.builders\<close>\<close>

record TransferBuilder =
  tb_config :: ClientConfig
  tb_recipient :: "string option"
  tb_amount :: "int option"
  tb_memo :: "string option"
  tb_fee :: int
  tb_gas_limit :: int

text \<open>The builder \<open>AetherClient.transfer\<close> returns: \<open>TransferBuilder(config)\<close>.\<close>

definition TransferBuilder_init :: "ClientConfig \<Rightarrow> TransferBuilder" where
  "TransferBuilder_init config =
     \<lparr>tb_config = config, tb_recipient = None, tb_amount = None, tb_memo = None,
      tb_fee = default_fee config, tb_gas_limit = default_gas_limit config\<rparr>"

definition TransferBuilder_to :: "string \<Rightarrow> TransferBuilder \<Rightarrow> py_exception + TransferBuilder" where
  "TransferBuilder_to r b =
     seq (ensure_hex r ''recipient'') (Inr (b\<lparr>tb_recipient := Some r\<rparr>))"

definition TransferBuilder_amount :: "int \<Rightarrow> TransferBuilder \<Rightarrow> py_exception + TransferBuilder" where
  "TransferBuilder_amount a b =
     seq (ensure_positive_int a ''amount'') (Inr (b\<lparr>tb_amount := Some a\<rparr>))"

definition TransferBuilder_memo :: "string \<Rightarrow> TransferBuilder \<Rightarrow> TransferBuilder" where
  "TransferBuilder_memo m b = b\<lparr>tb_memo := Some m\<rparr>"

definition TransferBuilder_fee :: "int \<Rightarrow> TransferBuilder \<Rightarrow> py_exception + TransferBuilder" where
  "TransferBuilder_fee f b =
     seq (ensure_positive_int f ''fee'') (Inr (b\<lparr>tb_fee := f\<rparr>))"

definition TransferBuilder_gas_limit :: "int \<Rightarrow> TransferBuilder \<Rightarrow> py_exception + TransferBuilder" where
  "TransferBuilder_gas_limit g b =
     seq (ensure_positive_int g ''gas_limit'') (Inr (b\<lparr>tb_gas_limit := g\<rparr>))"

text \<open>
  \<open>TransferBuilder.build\<close>: sender, public key, signature and nonce are required
  keyword arguments; the transaction starts with empty \<open>reads\<close> and \<open>writes\<close>.
\<close>

definition TransferBuilder_build ::
  "TransferBuilder \<Rightarrow> string \<Rightarrow> string \<Rightarrow> string \<Rightarrow> int \<Rightarrow> py_exception + SdkTransaction" where
  "TransferBuilder_build b sender_a sender_pk sig n =
     (case tb_recipient b of
        None \<Rightarrow> Inl (ValueError ''recipient not set'')
      | Some r \<Rightarrow>
     (case tb_amount b of
        None \<Rightarrow> Inl (ValueError ''amount not set'')
      | Some a \<Rightarrow>
          post_init
            \<lparr>nonce = n, sender = sender_a, sender_public_key = sender_pk, recipient = r,
             amount = a, fee = tb_fee b, gas_limit = tb_gas_limit b, memo = tb_memo b,
             signature = sig, reads = [], writes = []\<rparr>))"

section \<open>Concrete instances\<close>

text \<open>
  A small instance of the primitives that meets \<open>ed25519_sound\<close>, so that the
  assumptions of the theorems below can be discharged at concrete inputs. It is not
  a cryptographic scheme.
\<close>

definition demo_prims :: prims where
  "demo_prims =
     \<lparr>sha256 = (\<lambda>bs. take 32 (bs @ replicate 32 0)),
      ed_public = (\<lambda>sk. map (\<lambda>b. b + 1) sk),
      ed_sign = (\<lambda>sk m. take 64 (map (\<lambda>b. b + 1) sk @ m @ replicate 64 0)),
      ed_verify = (\<lambda>pk m s. s = take 64 (pk @ m @ replicate 64 0))\<rparr>"

definition demo_seed :: bytes where
  "demo_seed = replicate 32 7"

definition demo_keypair :: Keypair where
  "demo_keypair = Keypair_init demo_prims demo_seed"

definition other_seed :: bytes where
  "other_seed = replicate 32 9"

definition other_keypair :: Keypair where
  "other_keypair = Keypair_init demo_prims other_seed"

text \<open>Well-formed identifiers: the hex text of 20-byte addresses and of 32-byte hashes.\<close>

definition demo_sender :: Address where
  "demo_sender = ''0x'' @ hex (replicate 20 0xaa)"

definition demo_recipient :: Address where
  "demo_recipient = ''0x'' @ hex (replicate 20 0xbb)"

definition demo_public_key :: string where
  "demo_public_key = ''0x'' @ hex (replicate 32 0xa1)"

definition demo_signature :: string where
  "demo_signature = ''0x'' @ hex (replicate 64 0xb2)"

definition demo_tx_hash :: Hash where
  "demo_tx_hash = ''0x'' @ hex (replicate 32 0xab)"

definition demo_job_id :: Hash where
  "demo_job_id = ''0x'' @ hex (replicate 32 0x01)"

definition demo_other_job_id :: Hash where
  "demo_other_job_id = ''0x'' @ hex (replicate 32 0x02)"

definition demo_tx :: Transaction where
  "demo_tx = \<lparr>tx_from_addr = demo_sender, tx_to = demo_recipient, tx_value = 1000,
              tx_data = None, tx_nonce = 7, tx_signature = None, tx_hash = None\<rparr>"

definition demo_builder_no_nonce :: TransactionBuilder where
  "demo_builder_no_nonce =
     builder_value 5 (builder_to demo_recipient (builder_from_addr demo_sender builder_init))"

definition demo_sdk_tx :: SdkTransaction where
  "demo_sdk_tx =
     \<lparr>nonce = 0, sender = demo_sender, sender_public_key = demo_public_key,
      recipient = demo_recipient, amount = 1, fee = 2, gas_limit = 3, memo = None,
      signature = demo_signature, reads = [], writes = []\<rparr>"

definition demo_transfer_builder :: TransferBuilder where
  "demo_transfer_builder =
     (TransferBuilder_init ClientConfig_default)
       \<lparr>tb_recipient := Some demo_recipient, tb_amount := Some 1000\<rparr>"

definition world0 :: world where
  "world0 = \<lparr>now = 0, request_id = 0, sent = []\<rparr>"

definition demo_job :: "string \<Rightarrow> AIJob" where
  "demo_job st =
     \<lparr>job_id = demo_job_id, job_creator = demo_sender, job_model_hash = demo_tx_hash,
      job_input_data = [], job_aic_locked = 10, job_status = st,
      job_provider = Some demo_recipient, job_result = None, job_vcr = None\<rparr>"

text \<open>
  A receipt as a node's reply carries it (every field text) that names another job
  and another provider than \<open>demo_job\<close>; and the same receipt with its result as a
  bytes object.
\<close>

definition demo_vcr :: VerifiableComputeReceipt where
  "demo_vcr =
     \<lparr>vcr_job_id = demo_other_job_id, vcr_provider = demo_sender, vcr_result = Text ''0x01'',
      vcr_execution_trace = demo_tx_hash, vcr_kzg_commitments = [Text ''0xc1''],
      vcr_tee_attestation = Text ''0xa7'', vcr_timestamp = 0\<rparr>"

definition demo_raw_vcr :: VerifiableComputeReceipt where
  "demo_raw_vcr = demo_vcr\<lparr>vcr_result := Raw [1]\<rparr>"

definition demo_verdict :: rpc_data where
  "demo_verdict = DVerdict [(''valid'', True), (''kzg_valid'', True), (''tee_valid'', True)]"

text \<open>
  A node that knows no transaction receipt, reports every job in the given status,
  answers every request for a compute receipt with \<open>demo_vcr\<close> and accepts every
  receipt it is asked to verify; every request takes one second.
\<close>

definition demo_env :: "string \<Rightarrow> env" where
  "demo_env st =
     \<lparr>node = (\<lambda>rid meth params.
         if meth = ''ai_getJob'' then RpcResult (Some (DJob (demo_job st)))
         else if meth = ''ai_getVCR'' then RpcResult (Some (DVcr demo_vcr))
         else if meth = ''ai_verifyVCR'' then RpcResult (Some demo_verdict)
         else RpcResult None),
      latency = (\<lambda>rid. 1)\<rparr>"


text \<open>A node that has no record of anything.\<close>

definition silent_env :: env where
  "silent_env = \<lparr>node = (\<lambda>rid meth params. RpcResult None), latency = (\<lambda>rid. 1)\<rparr>"

section \<open>Which required fields a builder lacks\<close>

text \<open>
  The required fields that were never set, by the names the builders' error messages
  use, in the order in which \<open>build\<close> tests them.
\<close>

definition missing_fields :: "TransactionBuilder \<Rightarrow> string list" where
  "missing_fields b =
     (if b_from b = None then [''from address''] else []) @
     (if b_to b = None then [''to address''] else []) @
     (if b_value b = None then [''value''] else []) @
     (if b_nonce b = None then [''nonce''] else [])"

definition tb_missing_fields :: "TransferBuilder \<Rightarrow> string list" where
  "tb_missing_fields b =
     (if tb_recipient b = None then [''recipient''] else []) @
     (if tb_amount b = None then [''amount''] else [])"

section \<open>Hex text and little-endian integers\<close>

lemma hexval_hexdigit: "n < 16 \<Longrightarrow> hexval (hexdigit n) = Some n"
  by (auto simp: hexval_def hexdigit_def Let_def)

lemma not_space_hexdigit: "n < 16 \<Longrightarrow> \<not> is_space (hexdigit n)"
  by (auto simp: is_space_def hexdigit_def)

lemma unat_byte_div16: "unat (b :: byte) div 16 < 16"
  using unsigned_less [of b, where 'a = nat] by simp

lemma fromhex_hex_byte:
  "fromhex (hex_byte b @ cs) = map_option (\<lambda>bs. b # bs) (fromhex cs)"
  using unat_byte_div16 [of b]
  by (simp add: hex_byte_def hexval_hexdigit not_space_hexdigit)

lemma fromhex_hex_append: "fromhex (hex bs @ cs) = map_option (\<lambda>xs. bs @ xs) (fromhex cs)"
  by (induction bs)
    (simp_all add: hex_def fromhex_hex_byte option.map_comp comp_def option.map_ident)

lemma fromhex_hex: "fromhex (hex bs) = Some bs"
  using fromhex_hex_append [of bs "[]"] by simp

lemma hex_inject: "hex a = hex b \<longleftrightarrow> a = b"
proof
  assume "hex a = hex b"
  then have "fromhex (hex a) = fromhex (hex b)" by simp
  then show "a = b" by (simp add: fromhex_hex)
qed simp

lemma length_hex: "length (hex bs) = 2 * length bs"
  by (induction bs) (simp_all add: hex_def hex_byte_def)

lemma demo_ids_differ: "demo_other_job_id \<noteq> demo_job_id" "demo_sender \<noteq> demo_recipient"
  by (simp_all add: demo_other_job_id_def demo_job_id_def demo_sender_def demo_recipient_def
      hex_inject replicate_eq_replicate)

lemma demo_hex_prefix:
  "take 2 demo_sender = ''0x''" "take 2 demo_recipient = ''0x''"
  "take 2 demo_public_key = ''0x''" "take 2 demo_signature = ''0x''"
  by (simp_all add: demo_sender_def demo_recipient_def demo_public_key_def demo_signature_def)

lemma length_demo_signature: "length demo_signature = 130"
  by (simp add: demo_signature_def length_hex)

lemma length_le_bytes: "length (le_bytes n v) = n"
  by (induction n arbitrary: v) simp_all

lemma le_value_le_bytes: "0 \<le> v \<Longrightarrow> v < 2 ^ (8 * n) \<Longrightarrow> le_value (le_bytes n v) = v"
proof (induction n arbitrary: v)
  case 0
  then show ?case by simp
next
  case (Suc n)
  have "v div 256 < 2 ^ (8 * n)"
  proof -
    have "v < 256 * 2 ^ (8 * n)" using Suc.prems by (simp add: power_add)
    then show ?thesis by linarith
  qed
  moreover have "0 \<le> v div 256" using Suc.prems by simp
  ultimately have "le_value (le_bytes n (v div 256)) = v div 256"
    by (rule Suc.IH [rotated])
  moreover have "uint (word_of_int (v mod 256) :: byte) = v mod 256"
    by (simp add: uint_word_of_int take_bit_eq_mod)
  ultimately show ?case by simp
qed

lemma pack_le_ok:
  "0 \<le> v \<Longrightarrow> v < 2 ^ (8 * n) \<Longrightarrow>
   \<exists>bs. pack_le n v = Inr bs \<and> length bs = n \<and> le_value bs = v"
  by (simp add: pack_le_def length_le_bytes le_value_le_bytes)

section \<open>Signing and verifying\<close>

lemma demo_prims_sound: "ed25519_sound demo_prims"
  by (auto simp: ed25519_sound_def demo_prims_def)

lemma verify_sign:
  assumes "ed25519_sound P" "length (secret_key k) = 32"
    and "public_key k = ed_public P (secret_key k)"
  shows "Keypair_verify P (Keypair_sign P k m) m (public_key k)"
  using assms
  by (simp add: Keypair_verify_def Keypair_sign_def ed25519_sound_def fromhex_hex)

lemma from_secret_key_Inr:
  "from_secret_key P sk = Inr k \<Longrightarrow>
   length (secret_key k) = 32 \<and> public_key k = ed_public P (secret_key k)"
  by (auto simp: from_secret_key_def Keypair_init_def split: if_splits)

lemma constructed_keypair:
  assumes "from_secret_key P sk = Inr k \<or> from_seed P seed = Inr k \<or> generate P entropy = Inr k"
  shows "length (secret_key k) = 32 \<and> public_key k = ed_public P (secret_key k)"
  using assms from_secret_key_Inr unfolding from_seed_def generate_def by blast

lemma demo_keypair_constructed: "from_secret_key demo_prims demo_seed = Inr demo_keypair"
  by (simp add: from_secret_key_def demo_seed_def demo_keypair_def)

text \<open>
  C9. For every keypair the signer hands out (from a secret key, from a seed, or
  generated) and every message, verifying the keypair's signature of the message
  against the message and the keypair's public key returns true. The Ed25519 library is
  a parameter, assumed to accept its own signatures; the program's part is the hex
  text of the signature, which \<open>verify\<close> decodes back to the signed bytes.
\<close>

theorem sign_then_verify:
  assumes "ed25519_sound P"
    and "from_secret_key P sk = Inr k \<or> from_seed P seed = Inr k \<or> generate P entropy = Inr k"
  shows "Keypair_verify P (Keypair_sign P k m) m (public_key k) = True"
proof -
  have "length (secret_key k) = 32 \<and> public_key k = ed_public P (secret_key k)"
    using assms(2) by (rule constructed_keypair)
  then show ?thesis using verify_sign [OF assms(1)] by simp
qed

theorem sign_then_verify_witness:
  "ed25519_sound demo_prims \<and>
   from_secret_key demo_prims demo_seed = Inr demo_keypair \<and>
   Keypair_verify demo_prims (Keypair_sign demo_prims demo_keypair [1, 2, 3]) [1, 2, 3]
     (public_key demo_keypair) = True"
proof -
  have "from_secret_key demo_prims demo_seed = Inr demo_keypair
      \<or> from_seed demo_prims [] = Inr demo_keypair
      \<or> generate demo_prims [] = Inr demo_keypair"
    using demo_keypair_constructed by simp
  from sign_then_verify [OF demo_prims_sound this] demo_keypair_constructed demo_prims_sound
  show ?thesis by simp
qed

section \<open>The canonical encoding\<close>

lemma json_escape_digit:
  "(n :: nat) < 10 \<Longrightarrow> json_escape (char_of (48 + n)) = [char_of (48 + n)]"
  by (simp add: json_escape_def Let_def)

lemma str_int_1_10: "str_int 1 = [char_of (49 :: nat)]" "str_int 10 = [char_of (49 :: nat), char_of (48 :: nat)]"
  by (simp_all add: str_int_def str_nat.simps)

lemma length_json_str_1_10:
  "length (json_str (str_int 1)) = 3" "length (json_str (str_int 10)) = 4"
  using json_escape_digit [of 1] json_escape_digit [of 0]
  by (simp_all add: json_str_def str_int_1_10)

lemma payload_length_amount:
  "length (hash_payload (tx\<lparr>amount := 10\<rparr>)) = length (hash_payload (tx\<lparr>amount := 1\<rparr>)) + 1"
  by (simp add: hash_payload_def json_member_def length_json_str_1_10)

lemmas builder_defs = transfer_def call_builder_def builder_nonce_def builder_data_def
  builder_value_def builder_to_def builder_from_addr_def builder_init_def

text \<open>
  C1, as stated, does not hold of \<open>aether_sdk\<close>: \<open>Transaction.hash\<close> digests JSON text in
  which an integer is its decimal digits, so two accepted transactions that differ
  only in the amount (1 and 10) have encodings of different length.
\<close>

theorem json_integers_not_fixed_width:
  "post_init (demo_sdk_tx\<lparr>amount := 1\<rparr>) = Inr (demo_sdk_tx\<lparr>amount := 1, writes := [demo_recipient]\<rparr>)
   \<and> post_init (demo_sdk_tx\<lparr>amount := 10\<rparr>) =
       Inr (demo_sdk_tx\<lparr>amount := 10, writes := [demo_recipient]\<rparr>)
   \<and> length (hash_payload (demo_sdk_tx\<lparr>amount := 10, writes := [demo_recipient]\<rparr>)) =
       length (hash_payload (demo_sdk_tx\<lparr>amount := 1, writes := [demo_recipient]\<rparr>)) + 1"
  using payload_length_amount [of "demo_sdk_tx\<lparr>writes := [demo_recipient]\<rparr>"]
  by (simp add: post_init_def seq_def ensure_hex_def ensure_positive_int_def demo_sdk_tx_def
      demo_hex_prefix length_demo_signature)

text \<open>
  C1, amended. \<open>TransactionBuilder._serialize\<close> encodes the value as exactly 8 bytes
  and the nonce as exactly 4 bytes, each the unsigned little-endian form of the
  integer, at fixed places between the sender, the recipient and the data; an integer
  outside its width raises \<open>struct.error\<close> instead of being encoded; and the bytes do
  not depend on the signature and hash fields.
\<close>

theorem serialize_little_endian:
  "(0 \<le> tx_value tx \<and> tx_value tx < 2 ^ 64 \<and> 0 \<le> tx_nonce tx \<and> tx_nonce tx < 2 ^ 32 \<longrightarrow>
      (\<exists>vb nb. serialize tx =
           Inr (encode (tx_from_addr tx) @ encode (tx_to tx) @ vb @ data_or_empty (tx_data tx) @ nb)
         \<and> length vb = 8 \<and> le_value vb = tx_value tx
         \<and> length nb = 4 \<and> le_value nb = tx_nonce tx))
   \<and> (tx_value tx < 0 \<or> 2 ^ 64 \<le> tx_value tx \<or> tx_nonce tx < 0 \<or> 2 ^ 32 \<le> tx_nonce tx \<longrightarrow>
        serialize tx = Inl StructError)
   \<and> serialize (tx\<lparr>tx_signature := s, tx_hash := h\<rparr>) = serialize tx"
proof (intro conjI impI)
  assume a: "0 \<le> tx_value tx \<and> tx_value tx < 2 ^ 64 \<and> 0 \<le> tx_nonce tx \<and> tx_nonce tx < 2 ^ 32"
  obtain vb where vb: "pack_le 8 (tx_value tx) = Inr vb" "length vb = 8" "le_value vb = tx_value tx"
    using pack_le_ok [of "tx_value tx" 8] a by auto
  obtain nb where nb: "pack_le 4 (tx_nonce tx) = Inr nb" "length nb = 4" "le_value nb = tx_nonce tx"
    using pack_le_ok [of "tx_nonce tx" 4] a by auto
  show "\<exists>vb nb. serialize tx =
           Inr (encode (tx_from_addr tx) @ encode (tx_to tx) @ vb @ data_or_empty (tx_data tx) @ nb)
         \<and> length vb = 8 \<and> le_value vb = tx_value tx
         \<and> length nb = 4 \<and> le_value nb = tx_nonce tx"
    using vb nb by (intro exI [of _ vb] exI [of _ nb]) (simp add: serialize_def)
next
  assume "tx_value tx < 0 \<or> 2 ^ 64 \<le> tx_value tx \<or> tx_nonce tx < 0 \<or> 2 ^ 32 \<le> tx_nonce tx"
  then show "serialize tx = Inl StructError"
    by (auto simp: serialize_def pack_le_def split: sum.splits)
next
  show "serialize (tx\<lparr>tx_signature := s, tx_hash := h\<rparr>) = serialize tx"
    by (simp add: serialize_def cong: sum.case_cong)
qed

theorem serialize_little_endian_witness:
  "0 \<le> tx_value demo_tx \<and> tx_value demo_tx < 2 ^ 64 \<and> 0 \<le> tx_nonce demo_tx \<and> tx_nonce demo_tx < 2 ^ 32
   \<and> (\<exists>vb nb. serialize demo_tx =
           Inr (encode (tx_from_addr demo_tx) @ encode (tx_to demo_tx) @ vb @
                data_or_empty (tx_data demo_tx) @ nb)
         \<and> length vb = 8 \<and> le_value vb = tx_value demo_tx
         \<and> length nb = 4 \<and> le_value nb = tx_nonce demo_tx)
   \<and> serialize demo_tx =
       Inr (encode demo_sender @ encode demo_recipient @ [232, 3, 0, 0, 0, 0, 0, 0] @ [7, 0, 0, 0])
   \<and> serialize (demo_tx\<lparr>tx_value := - 1\<rparr>) = Inl StructError
   \<and> serialize (demo_tx\<lparr>tx_signature := Some ''ab'', tx_hash := Some ''0xcd''\<rparr>) = serialize demo_tx"
proof -
  have r: "0 \<le> tx_value demo_tx \<and> tx_value demo_tx < 2 ^ 64 \<and> 0 \<le> tx_nonce demo_tx
      \<and> tx_nonce demo_tx < 2 ^ 32"
    by (simp add: demo_tx_def)
  have 1: "serialize demo_tx =
     Inr (encode demo_sender @ encode demo_recipient @ [232, 3, 0, 0, 0, 0, 0, 0] @ [7, 0, 0, 0])"
    by (simp add: serialize_def demo_tx_def pack_le_def data_or_empty_def eval_nat_numeral)
  have 2: "\<exists>vb nb. serialize demo_tx =
           Inr (encode (tx_from_addr demo_tx) @ encode (tx_to demo_tx) @ vb @
                data_or_empty (tx_data demo_tx) @ nb)
         \<and> length vb = 8 \<and> le_value vb = tx_value demo_tx
         \<and> length nb = 4 \<and> le_value nb = tx_nonce demo_tx"
    using serialize_little_endian [where tx = demo_tx] r by blast
  have 3: "serialize (demo_tx\<lparr>tx_value := - 1\<rparr>) = Inl StructError"
    using serialize_little_endian [where tx = "demo_tx\<lparr>tx_value := - 1\<rparr>"] by simp
  have 4: "serialize (demo_tx\<lparr>tx_signature := Some ''ab'', tx_hash := Some ''0xcd''\<rparr>) = serialize demo_tx"
    using serialize_little_endian [where tx = demo_tx and s = "Some ''ab''" and h = "Some ''0xcd''"]
    by blast
  from r 1 2 3 4 show ?thesis by blast
qed


section \<open>Signed transactions\<close>

lemma sign_tx_Inr:
  assumes "sign_tx P b kp = Inr tx"
  shows "\<exists>bs. serialize (tx\<lparr>tx_signature := None, tx_hash := None\<rparr>) = Inr bs
           \<and> tx_hash tx = Some (''0x'' @ hex (sha256 P bs))
           \<and> tx_signature tx = Some (Keypair_sign P kp (sha256 P bs))"
proof -
  obtain tx0 where b: "build b = Inr tx0"
    using assms by (auto simp: sign_tx_def split: sum.splits)
  obtain bs where s: "serialize tx0 = Inr bs"
    using assms b by (auto simp: sign_tx_def split: sum.splits)
  have tx: "tx = tx0\<lparr>tx_signature := Some (Keypair_sign P kp (sha256 P bs)),
                    tx_hash := Some (''0x'' @ hex (sha256 P bs))\<rparr>"
    using assms b s by (simp add: sign_tx_def Let_def)
  have "serialize (tx\<lparr>tx_signature := None, tx_hash := None\<rparr>) = serialize tx0"
    unfolding tx by (simp add: serialize_def cong: sum.case_cong)
  then show ?thesis using s tx by simp
qed

lemma demo_sign_tx: "\<exists>tx. sign_tx demo_prims (transfer demo_sender demo_recipient 1000 0) demo_keypair = Inr tx"
  by (simp add: sign_tx_def build_def transfer_def builder_nonce_def builder_value_def builder_to_def
    builder_from_addr_def builder_init_def serialize_def pack_le_def Let_def)

lemma constructed_address:
  assumes "from_secret_key P sk = Inr k \<or> from_seed P seed = Inr k \<or> generate P entropy = Inr k"
  shows "address k = public_key_to_address P (public_key k)"
  using assms
  by (auto simp: from_seed_def generate_def from_secret_key_def Keypair_init_def split: if_splits)

lemma sign_tx_sender: "sign_tx P b kp = Inr tx \<Longrightarrow> b_from b = Some (tx_from_addr tx)"
  by (auto simp: sign_tx_def build_def Let_def split: sum.splits option.splits)

lemma other_keypair_constructed: "from_secret_key demo_prims other_seed = Inr other_keypair"
  by (simp add: from_secret_key_def other_seed_def other_keypair_def)

lemma demo_foreign_key:
  "\<not> Keypair_verify demo_prims (Keypair_sign demo_prims other_keypair m) m (public_key demo_keypair)"
  by (simp add: Keypair_verify_def Keypair_sign_def fromhex_hex demo_prims_def demo_keypair_def
      other_keypair_def Keypair_init_def demo_seed_def other_seed_def replicate_eq_replicate)

lemma demo_foreign_sign:
  "\<exists>tx. sign_tx demo_prims (transfer (address demo_keypair) demo_recipient 1000 0) other_keypair
     = Inr tx"
  by (simp add: sign_tx_def build_def transfer_def builder_nonce_def builder_value_def builder_to_def
    builder_from_addr_def builder_init_def serialize_def pack_le_def Let_def)

text \<open>
  C6, as stated, does not hold for every signed transaction: \<open>sign\<close> never compares the
  builder's sender with the keypair it is given. Here the sender is the address of
  \<open>demo_keypair\<close> and the keypair passed to \<open>sign\<close> is another one; the returned
  transaction carries the hash of its encoding, but its signature does not verify
  under the sender's public key (with the instance \<open>demo_prims\<close> of the primitives).
\<close>

theorem signer_need_not_be_sender:
  "address demo_keypair = public_key_to_address demo_prims (public_key demo_keypair)
   \<and> (\<exists>tx bs sg.
        sign_tx demo_prims (transfer (address demo_keypair) demo_recipient 1000 0) other_keypair
          = Inr tx
        \<and> tx_from_addr tx = address demo_keypair
        \<and> serialize (tx\<lparr>tx_signature := None, tx_hash := None\<rparr>) = Inr bs
        \<and> tx_hash tx = Some (''0x'' @ hex (sha256 demo_prims bs))
        \<and> tx_signature tx = Some sg
        \<and> \<not> Keypair_verify demo_prims sg (sha256 demo_prims bs) (public_key demo_keypair))"
proof -
  obtain tx where tx:
    "sign_tx demo_prims (transfer (address demo_keypair) demo_recipient 1000 0) other_keypair = Inr tx"
    using demo_foreign_sign by blast
  obtain bs where bs: "serialize (tx\<lparr>tx_signature := None, tx_hash := None\<rparr>) = Inr bs"
    "tx_hash tx = Some (''0x'' @ hex (sha256 demo_prims bs))"
    "tx_signature tx = Some (Keypair_sign demo_prims other_keypair (sha256 demo_prims bs))"
    using sign_tx_Inr [OF tx] by blast
  have "tx_from_addr tx = address demo_keypair"
    using sign_tx_sender [OF tx] by (simp add: builder_defs)
  moreover have "address demo_keypair = public_key_to_address demo_prims (public_key demo_keypair)"
    by (simp add: demo_keypair_def Keypair_init_def)
  ultimately show ?thesis using tx bs demo_foreign_key by blast
qed

text \<open>
  C6, amended. A transaction returned by \<open>TransactionBuilder.sign\<close> carries as its hash
  the text \<open>0x\<close> followed by the hex digest of the serialization of its fields other
  than signature and hash, and its signature verifies against that digest under the
  public key of the keypair passed to \<open>sign\<close> (any keypair the signer hands out). That
  key is the sender's when the builder's sender is the keypair's address, which is
  derived from that public key; \<open>TransactionHelper.create_transfer\<close> and
  \<open>create_call\<close> always build the transaction so.
\<close>

theorem signed_tx_invariant:
  assumes "ed25519_sound P"
    and "from_secret_key P sk = Inr kp \<or> from_seed P seed = Inr kp \<or> generate P entropy = Inr kp"
  shows "(sign_tx P b kp = Inr tx \<longrightarrow>
          (\<exists>bs sg. serialize (tx\<lparr>tx_signature := None, tx_hash := None\<rparr>) = Inr bs
             \<and> tx_hash tx = Some (''0x'' @ hex (sha256 P bs))
             \<and> tx_signature tx = Some sg
             \<and> Keypair_verify P sg (sha256 P bs) (public_key kp) = True)
          \<and> (b_from b = Some (address kp) \<longrightarrow>
               tx_from_addr tx = public_key_to_address P (public_key kp)))
       \<and> (create_transfer P kp to_a amt n = Inr tx' \<or> create_call P kp to_a d n v = Inr tx' \<longrightarrow>
          tx_from_addr tx' = public_key_to_address P (public_key kp)
          \<and> (\<exists>bs sg. serialize (tx'\<lparr>tx_signature := None, tx_hash := None\<rparr>) = Inr bs
             \<and> tx_hash tx' = Some (''0x'' @ hex (sha256 P bs))
             \<and> tx_signature tx' = Some sg
             \<and> Keypair_verify P sg (sha256 P bs) (public_key kp) = True))"
proof -
  have kp: "length (secret_key kp) = 32 \<and> public_key kp = ed_public P (secret_key kp)"
    using assms(2) by (rule constructed_keypair)
  have addr: "address kp = public_key_to_address P (public_key kp)"
    using assms(2) by (rule constructed_address)
  have inv: "\<exists>bs sg. serialize (t\<lparr>tx_signature := None, tx_hash := None\<rparr>) = Inr bs
             \<and> tx_hash t = Some (''0x'' @ hex (sha256 P bs))
             \<and> tx_signature t = Some sg
             \<and> Keypair_verify P sg (sha256 P bs) (public_key kp) = True"
    if t: "sign_tx P c kp = Inr t" for c t
  proof -
    obtain bs where bs: "serialize (t\<lparr>tx_signature := None, tx_hash := None\<rparr>) = Inr bs"
      "tx_hash t = Some (''0x'' @ hex (sha256 P bs))"
      "tx_signature t = Some (Keypair_sign P kp (sha256 P bs))"
      using sign_tx_Inr [OF t] by blast
    have "Keypair_verify P (Keypair_sign P kp (sha256 P bs)) (sha256 P bs) (public_key kp)"
      using verify_sign [OF assms(1)] kp by simp
    then show ?thesis using bs by simp
  qed
  have sender: "tx_from_addr t = public_key_to_address P (public_key kp)"
    if "sign_tx P c kp = Inr t" "b_from c = Some (address kp)" for c t
    using sign_tx_sender [OF that(1)] that(2) addr by simp
  have helper: "tx_from_addr tx' = public_key_to_address P (public_key kp)
      \<and> (\<exists>bs sg. serialize (tx'\<lparr>tx_signature := None, tx_hash := None\<rparr>) = Inr bs
             \<and> tx_hash tx' = Some (''0x'' @ hex (sha256 P bs))
             \<and> tx_signature tx' = Some sg
             \<and> Keypair_verify P sg (sha256 P bs) (public_key kp) = True)"
    if "create_transfer P kp to_a amt n = Inr tx' \<or> create_call P kp to_a d n v = Inr tx'"
  proof -
    from that obtain c where c: "sign_tx P c kp = Inr tx'" "b_from c = Some (address kp)"
      unfolding create_transfer_def create_call_def
      by (auto simp: builder_defs)
    show ?thesis using inv [OF c(1)] sender [OF c] by simp
  qed
  show ?thesis using inv sender helper by blast
qed

theorem signed_tx_invariant_witness:
  "ed25519_sound demo_prims
   \<and> from_secret_key demo_prims demo_seed = Inr demo_keypair
   \<and> (\<exists>tx bs sg. create_transfer demo_prims demo_keypair demo_recipient 1000 0 = Inr tx
        \<and> tx_from_addr tx = public_key_to_address demo_prims (public_key demo_keypair)
        \<and> serialize (tx\<lparr>tx_signature := None, tx_hash := None\<rparr>) = Inr bs
        \<and> tx_hash tx = Some (''0x'' @ hex (sha256 demo_prims bs))
        \<and> tx_signature tx = Some sg
        \<and> Keypair_verify demo_prims sg (sha256 demo_prims bs) (public_key demo_keypair) = True)
   \<and> (\<exists>tx bs sg. sign_tx demo_prims (transfer demo_sender demo_recipient 1000 0) demo_keypair = Inr tx
        \<and> serialize (tx\<lparr>tx_signature := None, tx_hash := None\<rparr>) = Inr bs
        \<and> tx_hash tx = Some (''0x'' @ hex (sha256 demo_prims bs))
        \<and> tx_signature tx = Some sg
        \<and> Keypair_verify demo_prims sg (sha256 demo_prims bs) (public_key demo_keypair) = True)"
proof -
  obtain tx where tx: "sign_tx demo_prims (transfer demo_sender demo_recipient 1000 0) demo_keypair = Inr tx"
    using demo_sign_tx by blast
  obtain tx' where tx': "create_transfer demo_prims demo_keypair demo_recipient 1000 0 = Inr tx'"
    by (simp add: create_transfer_def sign_tx_def build_def builder_defs serialize_def pack_le_def
        Let_def)
  have k: "from_secret_key demo_prims demo_seed = Inr demo_keypair
      \<or> from_seed demo_prims [] = Inr demo_keypair
      \<or> generate demo_prims [] = Inr demo_keypair"
    using demo_keypair_constructed by simp
  from signed_tx_invariant [OF demo_prims_sound k,
      where b = "transfer demo_sender demo_recipient 1000 0" and tx = tx
        and to_a = demo_recipient and amt = 1000 and n = 0 and tx' = tx']
    tx tx' demo_prims_sound demo_keypair_constructed
  show ?thesis by blast
qed

section \<open>Builders\<close>

lemma hd_in_set: "xs \<noteq> [] \<Longrightarrow> hd xs \<in> set xs"
  by simp

lemma build_missing:
  "missing_fields b \<noteq> [] \<Longrightarrow>
   build b = Inl (ValueError (''Transaction requires '' @ hd (missing_fields b)))"
  by (auto simp: build_def missing_fields_def split: option.splits if_splits)

lemma build_complete:
  "missing_fields b = [] \<Longrightarrow>
   build b = Inr \<lparr>tx_from_addr = the (b_from b), tx_to = the (b_to b), tx_value = the (b_value b),
                 tx_data = b_data b, tx_nonce = the (b_nonce b), tx_signature = None, tx_hash = None\<rparr>"
  by (auto simp: build_def missing_fields_def split: option.splits if_splits)

lemma tb_build_missing:
  "tb_missing_fields b \<noteq> [] \<Longrightarrow>
   TransferBuilder_build b s pk sg n = Inl (ValueError (hd (tb_missing_fields b) @ '' not set''))"
  by (auto simp: TransferBuilder_build_def tb_missing_fields_def split: option.splits if_splits)

lemma post_init_Inr:
  assumes "post_init tx = Inr tx'"
  shows "take 2 (sender tx) = ''0x''" "take 2 (sender_public_key tx) = ''0x''"
    "take 2 (recipient tx) = ''0x''" "take 2 (signature tx) = ''0x''"
    "0 < amount tx" "0 < fee tx" "0 < gas_limit tx" "0 \<le> nonce tx" "66 \<le> length (signature tx)"
    "tx' = (if writes tx = [] then tx\<lparr>writes := [recipient tx]\<rparr> else tx)"
  using assms
  by (auto simp: post_init_def seq_def ensure_hex_def ensure_positive_int_def
      split: if_splits sum.splits)

lemma post_init_ok:
  assumes "take 2 (sender tx) = ''0x''" "take 2 (sender_public_key tx) = ''0x''"
    "take 2 (recipient tx) = ''0x''" "take 2 (signature tx) = ''0x''"
    "0 < amount tx" "0 < fee tx" "0 < gas_limit tx" "0 \<le> nonce tx" "66 \<le> length (signature tx)"
  shows "post_init tx = Inr (if writes tx = [] then tx\<lparr>writes := [recipient tx]\<rparr> else tx)"
  using assms
  by (auto simp: post_init_def seq_def ensure_hex_def ensure_positive_int_def)


lemma post_init_zero_nonce:
  assumes "post_init tx = Inr tx'"
  shows "post_init (tx\<lparr>nonce := 0\<rparr>) = Inr (tx'\<lparr>nonce := 0\<rparr>)"
proof -
  note f = post_init_Inr [OF assms]
  have "post_init (tx\<lparr>nonce := 0\<rparr>) =
      Inr (if writes (tx\<lparr>nonce := 0\<rparr>) = [] then tx\<lparr>nonce := 0\<rparr>\<lparr>writes := [recipient (tx\<lparr>nonce := 0\<rparr>)]\<rparr>
           else tx\<lparr>nonce := 0\<rparr>)"
    by (rule post_init_ok) (use f in simp_all)
  then show ?thesis using f(10) by simp
qed

lemma demo_tb_build:
  "TransferBuilder_build demo_transfer_builder demo_sender demo_public_key demo_signature 42 =
     Inr \<lparr>nonce = 42, sender = demo_sender, sender_public_key = demo_public_key, recipient = demo_recipient,
          amount = 1000, fee = 2000000, gas_limit = 500000, memo = None,
          signature = demo_signature, reads = [], writes = [demo_recipient]\<rparr>"
  by (simp add: TransferBuilder_build_def demo_transfer_builder_def TransferBuilder_init_def
      ClientConfig_default_def post_init_def seq_def ensure_hex_def ensure_positive_int_def
      demo_hex_prefix length_demo_signature)

lemma demo_sdk_tx_ok: "post_init demo_sdk_tx = Inr (demo_sdk_tx\<lparr>writes := [demo_recipient]\<rparr>)"
  by (simp add: post_init_def seq_def ensure_hex_def ensure_positive_int_def demo_sdk_tx_def
      demo_hex_prefix length_demo_signature)

text \<open>
  C7. A builder on which the recipient, the amount or the nonce was never set fails in
  \<open>build\<close> with an error whose message names a field that is missing (the first one
  that \<open>build\<close> tests); a nonce of zero counts as set. In \<open>aether_sdk\<close> the nonce is an
  argument of \<open>build\<close>, and a build that succeeds with some nonce succeeds with nonce
  zero.
\<close>

theorem incomplete_builder_fails:
  "((b_to b = None \<or> b_value b = None \<or> b_nonce b = None) \<longrightarrow>
      (\<exists>f. f \<in> set (missing_fields b) \<and>
           build b = Inl (ValueError (''Transaction requires '' @ f))))
   \<and> ((b_from b \<noteq> None \<and> b_to b \<noteq> None \<and> b_value b \<noteq> None \<and> b_nonce b = Some 0) \<longrightarrow>
      (\<exists>tx. build b = Inr tx \<and> tx_nonce tx = 0))
   \<and> ((tb_recipient tb = None \<or> tb_amount tb = None) \<longrightarrow>
      (\<exists>f. f \<in> set (tb_missing_fields tb) \<and>
           TransferBuilder_build tb s pk sg n = Inl (ValueError (f @ '' not set''))))
   \<and> (TransferBuilder_build tb s pk sg n = Inr t \<longrightarrow>
      TransferBuilder_build tb s pk sg 0 = Inr (t\<lparr>nonce := 0\<rparr>))"
proof (intro conjI impI)
  assume "b_to b = None \<or> b_value b = None \<or> b_nonce b = None"
  then have m: "missing_fields b \<noteq> []" by (auto simp: missing_fields_def)
  show "\<exists>f. f \<in> set (missing_fields b) \<and>
           build b = Inl (ValueError (''Transaction requires '' @ f))"
    using build_missing [OF m] hd_in_set [OF m] by blast
next
  assume "b_from b \<noteq> None \<and> b_to b \<noteq> None \<and> b_value b \<noteq> None \<and> b_nonce b = Some 0"
  then have "missing_fields b = []" "the (b_nonce b) = 0" by (auto simp: missing_fields_def)
  then show "\<exists>tx. build b = Inr tx \<and> tx_nonce tx = 0"
    using build_complete [of b] by simp
next
  assume "tb_recipient tb = None \<or> tb_amount tb = None"
  then have m: "tb_missing_fields tb \<noteq> []" by (auto simp: tb_missing_fields_def)
  show "\<exists>f. f \<in> set (tb_missing_fields tb) \<and>
           TransferBuilder_build tb s pk sg n = Inl (ValueError (f @ '' not set''))"
    using tb_build_missing [OF m] hd_in_set [OF m] by blast
next
  assume a: "TransferBuilder_build tb s pk sg n = Inr t"
  then obtain r a' where ra: "tb_recipient tb = Some r" "tb_amount tb = Some a'"
    by (auto simp: TransferBuilder_build_def split: option.splits)
  from a ra post_init_zero_nonce show "TransferBuilder_build tb s pk sg 0 = Inr (t\<lparr>nonce := 0\<rparr>)"
    by (fastforce simp: TransferBuilder_build_def)
qed

theorem incomplete_builder_fails_witness:
  "build demo_builder_no_nonce = Inl (ValueError ''Transaction requires nonce'')
   \<and> (\<exists>tx. build (transfer demo_sender demo_recipient 5 0) = Inr tx \<and> tx_nonce tx = 0)
   \<and> TransferBuilder_build (TransferBuilder_init ClientConfig_default)
        demo_sender demo_public_key demo_signature 0 = Inl (ValueError ''recipient not set'')
   \<and> (\<exists>t. TransferBuilder_build demo_transfer_builder demo_sender demo_public_key demo_signature 0 = Inr t
          \<and> nonce t = 0)"
proof -
  have 1: "build demo_builder_no_nonce = Inl (ValueError ''Transaction requires nonce'')"
    using incomplete_builder_fails [of demo_builder_no_nonce]
    by (simp add: demo_builder_no_nonce_def builder_defs missing_fields_def)
  have 2: "\<exists>tx. build (transfer demo_sender demo_recipient 5 0) = Inr tx \<and> tx_nonce tx = 0"
    using incomplete_builder_fails [of "transfer demo_sender demo_recipient 5 0"]
    by (simp add: builder_defs)
  have 3: "TransferBuilder_build (TransferBuilder_init ClientConfig_default)
        demo_sender demo_public_key demo_signature 0 = Inl (ValueError ''recipient not set'')"
    using incomplete_builder_fails [of _ "TransferBuilder_init ClientConfig_default"
        "demo_sender" "demo_public_key" demo_signature 0]
    by (simp add: TransferBuilder_init_def tb_missing_fields_def TransferBuilder_build_def)
  have 4: "\<exists>t. TransferBuilder_build demo_transfer_builder demo_sender demo_public_key demo_signature 0 = Inr t
          \<and> nonce t = 0"
    using incomplete_builder_fails [of _ demo_transfer_builder "demo_sender" "demo_public_key" demo_signature 42]
      demo_tb_build by simp
  from 1 2 3 4 show ?thesis by blast
qed


text \<open>
  C8, as stated, does not hold: \<open>TransactionBuilder.build\<close> returns a transaction whose
  value is negative, and \<open>aether_sdk\<close> rejects an amount, a fee or a gas limit of zero.
\<close>

theorem negative_amount_counterexample:
  "build (transfer demo_sender demo_recipient (- 1) 0) =
     Inr \<lparr>tx_from_addr = demo_sender, tx_to = demo_recipient, tx_value = - 1, tx_data = None,
          tx_nonce = 0, tx_signature = None, tx_hash = None\<rparr>
   \<and> TransferBuilder_amount 0 (TransferBuilder_init ClientConfig_default) =
       Inl (ValueError ''amount must be positive'')
   \<and> post_init (demo_sdk_tx\<lparr>fee := 0\<rparr>) = Inl (ValueError ''fee must be positive'')
   \<and> post_init (demo_sdk_tx\<lparr>gas_limit := 0\<rparr>) = Inl (ValueError ''gas_limit must be positive'')"
  by (simp add: build_def builder_defs TransferBuilder_amount_def seq_def ensure_positive_int_def
      post_init_def ensure_hex_def demo_sdk_tx_def demo_hex_prefix)

lemma build_value_unchecked:
  assumes "b_from b \<noteq> None" "b_to b \<noteq> None" "b_nonce b \<noteq> None"
  shows "\<exists>t. build (builder_value v b) = Inr t \<and> tx_value t = v"
  using assms by (auto simp: build_def builder_value_def)

lemma sign_negative_value:
  assumes "b_from b \<noteq> None" "b_to b \<noteq> None" "b_nonce b \<noteq> None" "v < 0"
  shows "sign_tx P (builder_value v b) kp = Inl StructError"
  using assms by (auto simp: sign_tx_def build_def builder_value_def serialize_def pack_le_def)

text \<open>
  C8, amended. In \<open>aether_sdk\<close> a constructed transaction has an amount, a fee and a gas
  limit that are strictly positive, and the builder's setters accept only strictly
  positive values. In \<open>aether\<close>, \<open>build\<close> tests no sign: with sender, recipient and nonce
  set it succeeds for every value, and a negative value is refused only by
  \<open>struct.pack\<close> when \<open>sign\<close> serializes the transaction.
\<close>

theorem amount_checks:
  "(post_init tx = Inr tx' \<longrightarrow> 0 < amount tx' \<and> 0 < fee tx' \<and> 0 < gas_limit tx')
   \<and> (TransferBuilder_amount a tb = Inr tb' \<longrightarrow> 0 < a)
   \<and> (TransferBuilder_fee a tb = Inr tb' \<longrightarrow> 0 < a)
   \<and> (TransferBuilder_gas_limit a tb = Inr tb' \<longrightarrow> 0 < a)
   \<and> (b_from b \<noteq> None \<and> b_to b \<noteq> None \<and> b_nonce b \<noteq> None \<longrightarrow>
        (\<exists>t. build (builder_value v b) = Inr t \<and> tx_value t = v)
        \<and> (v < 0 \<longrightarrow> sign_tx P (builder_value v b) kp = Inl StructError))"
proof (intro conjI impI)
  assume "post_init tx = Inr tx'"
  from post_init_Inr [OF this] show "0 < amount tx'" "0 < fee tx'" "0 < gas_limit tx'"
    by (simp_all split: if_splits)
next
  assume "TransferBuilder_amount a tb = Inr tb'"
  then show "0 < a"
    by (auto simp: TransferBuilder_amount_def seq_def ensure_positive_int_def split: if_splits)
next
  assume "TransferBuilder_fee a tb = Inr tb'"
  then show "0 < a"
    by (auto simp: TransferBuilder_fee_def seq_def ensure_positive_int_def split: if_splits)
next
  assume "TransferBuilder_gas_limit a tb = Inr tb'"
  then show "0 < a"
    by (auto simp: TransferBuilder_gas_limit_def seq_def ensure_positive_int_def split: if_splits)
next
  assume "b_from b \<noteq> None \<and> b_to b \<noteq> None \<and> b_nonce b \<noteq> None"
  then show "\<exists>t. build (builder_value v b) = Inr t \<and> tx_value t = v"
    using build_value_unchecked by blast
next
  assume "b_from b \<noteq> None \<and> b_to b \<noteq> None \<and> b_nonce b \<noteq> None" "v < 0"
  then show "sign_tx P (builder_value v b) kp = Inl StructError"
    using sign_negative_value by blast
qed

theorem amount_checks_witness:
  "post_init demo_sdk_tx = Inr (demo_sdk_tx\<lparr>writes := [demo_recipient]\<rparr>)
   \<and> 0 < amount (demo_sdk_tx\<lparr>writes := [demo_recipient]\<rparr>)
   \<and> TransferBuilder_amount 7 demo_transfer_builder = Inr (demo_transfer_builder\<lparr>tb_amount := Some 7\<rparr>)
   \<and> TransferBuilder_fee 7 demo_transfer_builder = Inr (demo_transfer_builder\<lparr>tb_fee := 7\<rparr>)
   \<and> TransferBuilder_gas_limit 7 demo_transfer_builder =
       Inr (demo_transfer_builder\<lparr>tb_gas_limit := 7\<rparr>)
   \<and> (\<exists>t. build (builder_value (- 1) (transfer demo_sender demo_recipient 5 0)) = Inr t \<and> tx_value t = - 1)
   \<and> sign_tx demo_prims (builder_value (- 1) (transfer demo_sender demo_recipient 5 0)) demo_keypair =
       Inl StructError"
proof -
  have s: "TransferBuilder_amount 7 demo_transfer_builder = Inr (demo_transfer_builder\<lparr>tb_amount := Some 7\<rparr>)"
    "TransferBuilder_fee 7 demo_transfer_builder = Inr (demo_transfer_builder\<lparr>tb_fee := 7\<rparr>)"
    "TransferBuilder_gas_limit 7 demo_transfer_builder = Inr (demo_transfer_builder\<lparr>tb_gas_limit := 7\<rparr>)"
    by (simp_all add: TransferBuilder_amount_def TransferBuilder_fee_def TransferBuilder_gas_limit_def
        seq_def ensure_positive_int_def)
  have b: "b_from (transfer demo_sender demo_recipient 5 0) \<noteq> None \<and> b_to (transfer demo_sender demo_recipient 5 0) \<noteq> None
      \<and> b_nonce (transfer demo_sender demo_recipient 5 0) \<noteq> None"
    by (simp add: builder_defs)
  from amount_checks [of demo_sdk_tx "demo_sdk_tx\<lparr>writes := [demo_recipient]\<rparr>" 7 demo_transfer_builder
      "demo_transfer_builder\<lparr>tb_amount := Some 7\<rparr>" "transfer demo_sender demo_recipient 5 0" "- 1"
      demo_prims demo_keypair]
    demo_sdk_tx_ok s b
  show ?thesis by simp
qed

text \<open>
  C10. A constructed \<open>aether_sdk\<close> transaction has a non-empty \<open>writes\<close> list; when it
  was given an empty one, the list is exactly the recipient, which is its first
  element.
\<close>

theorem writes_never_empty:
  "post_init tx = Inr tx' \<Longrightarrow>
   writes tx' \<noteq> [] \<and> (writes tx = [] \<longrightarrow> writes tx' = [recipient tx'] \<and> hd (writes tx') = recipient tx')"
  using post_init_Inr(10) [of tx tx'] by (auto split: if_splits)


theorem writes_never_empty_witness:
  "writes demo_sdk_tx = [] \<and> post_init demo_sdk_tx = Inr (demo_sdk_tx\<lparr>writes := [demo_recipient]\<rparr>)
   \<and> writes (demo_sdk_tx\<lparr>writes := [demo_recipient]\<rparr>) \<noteq> []
   \<and> hd (writes (demo_sdk_tx\<lparr>writes := [demo_recipient]\<rparr>)) = recipient (demo_sdk_tx\<lparr>writes := [demo_recipient]\<rparr>)"
  using writes_never_empty [OF demo_sdk_tx_ok] demo_sdk_tx_ok
  by (simp add: demo_sdk_tx_def)


section \<open>Receipt verification\<close>

lemma demo_vcr_json: "json_vcr demo_vcr" "\<not> json_vcr demo_raw_vcr"
  by (simp_all add: json_vcr_def demo_vcr_def demo_raw_vcr_def)

text \<open>
  C2, as stated, does not hold: \<open>verify_vcr\<close> is given the receipt alone and runs no
  local check. The receipt that \<open>get_vcr\<close> returns for the job names another job and
  another provider than the job does; \<open>verify_vcr\<close> sends it to \<open>ai_verifyVCR\<close> all the
  same and returns the node's verdict.
\<close>

theorem vcr_mismatch_still_forwarded:
  "get_vcr (demo_env ''settled'') world0 (job_id (demo_job ''settled'')) =
     (Some demo_vcr,
      \<lparr>now = 1, request_id = 1, sent = [(''ai_getVCR'', [PStr demo_job_id], 1)]\<rparr>)
   \<and> vcr_job_id demo_vcr \<noteq> job_id (demo_job ''settled'')
   \<and> Some (vcr_provider demo_vcr) \<noteq> job_provider (demo_job ''settled'')
   \<and> verify_vcr (demo_env ''settled'')
         \<lparr>now = 1, request_id = 1, sent = [(''ai_getVCR'', [PStr demo_job_id], 1)]\<rparr> demo_vcr =
       (Inr (Some demo_verdict),
        \<lparr>now = 2, request_id = 2,
         sent = [(''ai_getVCR'', [PStr demo_job_id], 1), (''ai_verifyVCR'', [PVcr demo_vcr], 2)]\<rparr>)"
  by (simp add: verify_vcr_def get_vcr_def rpc_call_def demo_env_def world0_def demo_job_def
      demo_vcr_json)
    (simp add: demo_vcr_def demo_ids_differ)

text \<open>
  C2, amended. \<open>verify_vcr\<close> runs no local cross-check; what it does depends on the
  receipt alone, never on a job. A receipt whose fields JSON can encode (every receipt
  built from a node's reply) is sent in exactly one \<open>ai_verifyVCR\<close> request, and the
  outcome of the call is returned: the node's verdict, or the exception of a failed
  call. A receipt that holds a bytes object raises \<open>TypeError\<close> while the request is
  encoded: the request counter has moved, nothing is sent and no time has passed.
\<close>

theorem verify_vcr_no_cross_check:
  "(json_vcr vcr \<longrightarrow>
      sent (snd (verify_vcr E w vcr)) = sent w @ [(''ai_verifyVCR'', [PVcr vcr], request_id w + 1)]
      \<and> fst (verify_vcr E w vcr) =
          (case node E (request_id w + 1) ''ai_verifyVCR'' [PVcr vcr] of
             HttpFailure e \<Rightarrow> Inl (RpcException (''HTTP error: '' @ e))
           | RpcError m c \<Rightarrow>
               Inl (RpcException (''RPC Error: '' @ m @ '' (code: '' @ str_int c @ '')''))
           | RpcErrorNull \<Rightarrow>
               Inl (TypeError (squote # ''NoneType'' @ squote # '' object is not subscriptable''))
           | RpcResult r \<Rightarrow> Inr r))
   \<and> (\<not> json_vcr vcr \<longrightarrow>
      verify_vcr E w vcr =
        (Inl (TypeError ''Object of type bytes is not JSON serializable''),
         w\<lparr>request_id := request_id w + 1\<rparr>))"
  by (simp add: verify_vcr_def rpc_call_def Let_def split: reply.splits)

theorem verify_vcr_no_cross_check_witness:
  "json_vcr demo_vcr
   \<and> sent (snd (verify_vcr (demo_env ''settled'') world0 demo_vcr)) =
       [(''ai_verifyVCR'', [PVcr demo_vcr], 1)]
   \<and> fst (verify_vcr (demo_env ''settled'') world0 demo_vcr) = Inr (Some demo_verdict)
   \<and> \<not> json_vcr demo_raw_vcr
   \<and> verify_vcr (demo_env ''settled'') world0 demo_raw_vcr =
       (Inl (TypeError ''Object of type bytes is not JSON serializable''),
        \<lparr>now = 0, request_id = 1, sent = []\<rparr>)"
proof -
  have 1: "sent (snd (verify_vcr (demo_env ''settled'') world0 demo_vcr)) =
       [(''ai_verifyVCR'', [PVcr demo_vcr], 1)]
     \<and> fst (verify_vcr (demo_env ''settled'') world0 demo_vcr) = Inr (Some demo_verdict)"
    using verify_vcr_no_cross_check [where vcr = demo_vcr and E = "demo_env ''settled''"
        and w = world0] demo_vcr_json(1)
    by (simp add: world0_def demo_env_def)
  have 2: "verify_vcr (demo_env ''settled'') world0 demo_raw_vcr =
       (Inl (TypeError ''Object of type bytes is not JSON serializable''),
        \<lparr>now = 0, request_id = 1, sent = []\<rparr>)"
    using verify_vcr_no_cross_check [where vcr = demo_raw_vcr and E = "demo_env ''settled''"
        and w = world0] demo_vcr_json(2)
    by (simp add: world0_def)
  from 1 2 demo_vcr_json show ?thesis by simp
qed

section \<open>Waiting: the clock and the two loops\<close>

lemma now_rpc_call:
  "list_all json_param ps \<Longrightarrow>
   now (snd (rpc_call E w m ps)) = now w + latency E (request_id w + 1)"
  by (simp add: rpc_call_def Let_def split: reply.splits)

lemma now_get_job: "now (snd (get_job E w jid)) = now w + latency E (request_id w + 1)"
  using now_rpc_call [where E = E and w = w and m = "''ai_getJob''" and ps = "[PStr jid]"]
  by (auto simp: get_job_def split: prod.splits sum.splits option.splits rpc_data.splits)

lemma now_get_receipt:
  "now (snd (get_transaction_receipt E w h)) = now w + latency E (request_id w + 1)"
  using now_rpc_call [where E = E and w = w and m = "''getTransactionReceipt''"
      and ps = "[PStr h]"]
  by (auto simp: get_transaction_receipt_def split: prod.splits sum.splits option.splits rpc_data.splits)

lemma ceil_step:
  fixes p r r2 :: real
  assumes "0 < p" "0 < r" "r2 \<le> r - p"
  shows "nat \<lceil>r2 / p\<rceil> < nat \<lceil>r / p\<rceil>"
proof -
  have "r2 / p \<le> r / p - 1" using assms by (simp add: field_simps)
  then have "\<lceil>r2 / p\<rceil> \<le> \<lceil>r / p - 1\<rceil>" by (rule ceiling_mono)
  then have "\<lceil>r2 / p\<rceil> \<le> \<lceil>r / p\<rceil> - 1" by simp
  moreover have "0 < \<lceil>r / p\<rceil>" using assms by simp
  ultimately show ?thesis by linarith
qed


lemma sleep_now: "now (sleep p w) = now w + max 0 p"
  by (simp add: sleep_def)

lemma job_loop_times_out:
  assumes poll: "0 < poll"
    and lat: "\<forall>k. 0 \<le> latency E k"
    and pending: "\<forall>w. \<exists>j. fst (get_job E w jid) = Some j
        \<and> job_status j \<notin> set [''completed'', ''settled'', ''challenged'']"
  shows "\<exists>w'. job_wait_loop E jid timeout poll start w =
            Some (Inl (TimeoutError (''Job '' @ jid @ '' did not complete within '') timeout), w')
          \<and> timeout \<le> now w' - start"
proof (induction "nat \<lceil>(timeout - (now w - start)) / poll\<rceil>" arbitrary: w rule: less_induct)
  case less
  show ?case
  proof (cases "now w - start < timeout")
    case False
    then show ?thesis by (subst job_wait_loop.simps) simp
  next
    case True
    obtain j where j: "fst (get_job E w jid) = Some j"
      "job_status j \<notin> set [''completed'', ''settled'', ''challenged'']"
      using pending by blast
    define w1 where "w1 = snd (get_job E w jid)"
    have g: "get_job E w jid = (Some j, w1)"
      using j(1) by (simp add: w1_def prod_eq_iff)
    have "now w \<le> now w1"
      using now_get_job [of E w jid] lat by (simp add: w1_def)
    then have "timeout - (now (sleep poll w1) - start) \<le> timeout - (now w - start) - poll"
      using poll by (simp add: sleep_now)
    moreover have "0 < timeout - (now w - start)"
      using True by simp
    ultimately have "nat \<lceil>(timeout - (now (sleep poll w1) - start)) / poll\<rceil>
        < nat \<lceil>(timeout - (now w - start)) / poll\<rceil>"
      by (intro ceil_step [OF poll])
    from less [OF this] obtain w' where
      w': "job_wait_loop E jid timeout poll start (sleep poll w1) =
            Some (Inl (TimeoutError (''Job '' @ jid @ '' did not complete within '') timeout), w')"
        "timeout \<le> now w' - start"
      by blast
    have "job_wait_loop E jid timeout poll start w =
        job_wait_loop E jid timeout poll start (sleep poll w1)"
      using True g j(2) by (subst job_wait_loop.simps) simp
    then show ?thesis using w' by simp
  qed
qed

lemma tx_loop_times_out:
  assumes poll: "0 < poll"
    and lat: "\<forall>k. 0 \<le> latency E k"
    and pending: "\<forall>w. fst (get_transaction_receipt E w h) = Inr None"
  shows "\<exists>w'. tx_wait_loop E h timeout poll start w =
            Some (Inl (TimeoutError (''Transaction '' @ h @ '' not confirmed within '') timeout), w')
          \<and> timeout \<le> now w' - start"
proof (induction "nat \<lceil>(timeout - (now w - start)) / poll\<rceil>" arbitrary: w rule: less_induct)
  case less
  show ?case
  proof (cases "now w - start < timeout")
    case False
    then show ?thesis by (subst tx_wait_loop.simps) simp
  next
    case True
    define w1 where "w1 = snd (get_transaction_receipt E w h)"
    have g: "get_transaction_receipt E w h = (Inr None, w1)"
      using pending by (simp add: w1_def prod_eq_iff)
    have "now w \<le> now w1"
      using now_get_receipt [of E w h] lat by (simp add: w1_def)
    then have "timeout - (now (sleep poll w1) - start) \<le> timeout - (now w - start) - poll"
      using poll by (simp add: sleep_now)
    moreover have "0 < timeout - (now w - start)"
      using True by simp
    ultimately have "nat \<lceil>(timeout - (now (sleep poll w1) - start)) / poll\<rceil>
        < nat \<lceil>(timeout - (now w - start)) / poll\<rceil>"
      by (intro ceil_step [OF poll])
    from less [OF this] obtain w' where
      w': "tx_wait_loop E h timeout poll start (sleep poll w1) =
            Some (Inl (TimeoutError (''Transaction '' @ h @ '' not confirmed within '') timeout), w')"
        "timeout \<le> now w' - start"
      by blast
    have "tx_wait_loop E h timeout poll start w =
        tx_wait_loop E h timeout poll start (sleep poll w1)"
      using True g by (subst tx_wait_loop.simps) simp
    then show ?thesis using w' by simp
  qed
qed

lemma get_receipt_error:
  "fst (get_transaction_receipt E w h) = Inl e \<Longrightarrow> (\<exists>m. e = RpcException m) \<or> (\<exists>m. e = TypeError m)"
  by (auto simp: get_transaction_receipt_def rpc_call_def Let_def
      split: prod.splits sum.splits option.splits rpc_data.splits reply.splits)



lemma tx_timeout_only_after_deadline:
  assumes "tx_wait_loop E h timeout poll start w = Some y"
  shows "\<forall>m t. fst y = Inl (TimeoutError m t) \<longrightarrow> timeout \<le> now (snd y) - start"
proof (rule tx_wait_loop.raw_induct [where P = "\<lambda>E h timeout poll start w y.
      \<forall>m t. fst y = Inl (TimeoutError m t) \<longrightarrow> timeout \<le> now (snd y) - start", OF _ assms])
  fix loop E h timeout poll start w y
  assume "\<And>E h timeout poll start w y. loop E h timeout poll start w = Some y \<Longrightarrow>
      \<forall>m t. fst y = Inl (TimeoutError m t) \<longrightarrow> timeout \<le> now (snd y) - start"
    and "(if now w - start < timeout
      then case get_transaction_receipt E w h of
           (Inl e, w1) \<Rightarrow> Some (Inl e, w1)
           | (Inr None, w1) \<Rightarrow> loop E h timeout poll start (sleep poll w1)
           | (Inr (Some receipt), w1) \<Rightarrow> Some (Inr receipt, w1)
      else Some (Inl (TimeoutError (''Transaction '' @ h @ '' not confirmed within '') timeout), w))
     = Some y"
  then show "\<forall>m t. fst y = Inl (TimeoutError m t) \<longrightarrow> timeout \<le> now (snd y) - start"
    using get_receipt_error [of E w h]
    by (auto split: if_splits prod.splits option.splits sum.splits)
qed


lemma silent_receipt:
  "get_transaction_receipt silent_env world0 demo_tx_hash =
     (Inr None, \<lparr>now = 1, request_id = 1, sent = [(''getTransactionReceipt'', [PStr demo_tx_hash], 1)]\<rparr>)"
  by (simp add: get_transaction_receipt_def rpc_call_def silent_env_def world0_def)

lemma silent_job:
  "get_job silent_env world0 demo_job_id =
     (None, \<lparr>now = 1, request_id = 1, sent = [(''ai_getJob'', [PStr demo_job_id], 1)]\<rparr>)"
  by (simp add: get_job_def rpc_call_def silent_env_def world0_def)


lemma demo_env_latency: "\<forall>k. 0 \<le> latency (demo_env st) k"
  by (simp add: demo_env_def)

lemma demo_env_receipt: "\<forall>w. fst (get_transaction_receipt (demo_env st) w h) = Inr None"
  by (simp add: get_transaction_receipt_def rpc_call_def demo_env_def Let_def)

lemma demo_env_job:
  "\<forall>w. \<exists>j. fst (get_job (demo_env ''computing'') w jid) = Some j
     \<and> job_status j \<notin> set [''completed'', ''settled'', ''challenged'']"
  by (simp add: get_job_def rpc_call_def demo_env_def Let_def demo_job_def)

lemma demo_tx_wait:
  "wait_for_transaction (demo_env ''computing'') demo_tx_hash 3 1 world0 =
     Some (Inl (TimeoutError (''Transaction '' @ demo_tx_hash @ '' not confirmed within '') 3),
           \<lparr>now = 4, request_id = 2,
            sent = [(''getTransactionReceipt'', [PStr demo_tx_hash], 1),
                    (''getTransactionReceipt'', [PStr demo_tx_hash], 2)]\<rparr>)"
  by (simp add: wait_for_transaction_def tx_wait_loop.simps get_transaction_receipt_def
      rpc_call_def demo_env_def world0_def sleep_def)


text \<open>
  C3, as stated, does not hold of the job wait: for a well-formed job id (\<open>0x\<close> and
  64 hex digits), when the first probe finds no job, \<open>wait_for_job_completion\<close> raises
  \<open>ValueError\<close> after that single request, long before the timeout of 300 seconds.
\<close>

theorem job_not_found_raises:
  "take 2 demo_job_id = ''0x'' \<and> length demo_job_id = 66
   \<and> wait_for_job_completion silent_env demo_job_id 300 2 world0 =
       Some (Inl (ValueError (''Job '' @ demo_job_id @ '' not found'')),
             \<lparr>now = 1, request_id = 1, sent = [(''ai_getJob'', [PStr demo_job_id], 1)]\<rparr>)"
proof -
  have "take 2 demo_job_id = ''0x''" "length demo_job_id = 66"
    by (simp_all add: demo_job_id_def length_hex)
  moreover have "wait_for_job_completion silent_env demo_job_id 300 2 world0 =
       Some (Inl (ValueError (''Job '' @ demo_job_id @ '' not found'')),
             \<lparr>now = 1, request_id = 1, sent = [(''ai_getJob'', [PStr demo_job_id], 1)]\<rparr>)"
    by (simp add: wait_for_job_completion_def job_wait_loop.simps get_job_def rpc_call_def
        silent_env_def world0_def)
  ultimately show ?thesis by simp
qed

text \<open>
  C3, amended. In \<open>wait_for_transaction\<close> a probe that finds no receipt is treated as
  still pending: the loop sleeps for the poll interval and goes round again. In
  \<open>wait_for_job_completion\<close> a probe that finds no job (\<open>get_job\<close> gives \<open>None\<close>) ends
  the wait at once with \<open>ValueError\<close>.
\<close>

theorem not_found_handling:
  "(now w - start < timeout \<and> get_transaction_receipt E w h = (Inr None, w1) \<longrightarrow>
      tx_wait_loop E h timeout poll start w = tx_wait_loop E h timeout poll start (sleep poll w1))
   \<and> (now w - start < timeout \<and> get_job E w jid = (None, w2) \<longrightarrow>
      job_wait_loop E jid timeout poll start w =
        Some (Inl (ValueError (''Job '' @ jid @ '' not found'')), w2))"
proof (intro conjI impI)
  assume "now w - start < timeout \<and> get_transaction_receipt E w h = (Inr None, w1)"
  then show "tx_wait_loop E h timeout poll start w =
      tx_wait_loop E h timeout poll start (sleep poll w1)"
    by (subst tx_wait_loop.simps) simp
next
  assume "now w - start < timeout \<and> get_job E w jid = (None, w2)"
  then show "job_wait_loop E jid timeout poll start w =
        Some (Inl (ValueError (''Job '' @ jid @ '' not found'')), w2)"
    by (subst job_wait_loop.simps) simp
qed

theorem not_found_handling_witness:
  "now world0 - 0 < 300
   \<and> get_transaction_receipt silent_env world0 demo_tx_hash =
       (Inr None, \<lparr>now = 1, request_id = 1, sent = [(''getTransactionReceipt'', [PStr demo_tx_hash], 1)]\<rparr>)
   \<and> tx_wait_loop silent_env demo_tx_hash 300 2 0 world0 =
       tx_wait_loop silent_env demo_tx_hash 300 2 0
         \<lparr>now = 3, request_id = 1, sent = [(''getTransactionReceipt'', [PStr demo_tx_hash], 1)]\<rparr>
   \<and> job_wait_loop silent_env demo_job_id 300 2 0 world0 =
       Some (Inl (ValueError (''Job '' @ demo_job_id @ '' not found'')),
             \<lparr>now = 1, request_id = 1, sent = [(''ai_getJob'', [PStr demo_job_id], 1)]\<rparr>)"
proof -
  have t: "now world0 - 0 < (300 :: real)" by (simp add: world0_def)
  from not_found_handling [where w = world0 and start = 0 and timeout = 300 and E = silent_env
      and h = demo_tx_hash and jid = demo_job_id and poll = 2,
      where ?w1.0 = "\<lparr>now = 1, request_id = 1, sent = [(''getTransactionReceipt'', [PStr demo_tx_hash], 1)]\<rparr>"
      and ?w2.0 = "\<lparr>now = 1, request_id = 1, sent = [(''ai_getJob'', [PStr demo_job_id], 1)]\<rparr>"]
    t silent_receipt silent_job
  show ?thesis by (simp add: sleep_def)
qed




text \<open>
  C5. With a positive timeout and a positive poll interval, on a clock that does not
  run backwards, a wait whose every probe reports a pending state returns, and what
  it returns is the \<open>TimeoutError\<close>, raised when the elapsed time has reached the
  timeout. This holds of the transaction wait (no receipt yet) and of the job wait (a
  job whose status is none of completed, settled, challenged).
\<close>

theorem pending_wait_times_out:
  assumes "0 < timeout" and "0 < poll" and "\<forall>k. 0 \<le> latency E k"
  shows "((\<forall>w. fst (get_transaction_receipt E w h) = Inr None) \<longrightarrow>
          (\<exists>w'. wait_for_transaction E h timeout poll w0 =
             Some (Inl (TimeoutError (''Transaction '' @ h @ '' not confirmed within '') timeout), w')
           \<and> timeout \<le> now w' - now w0))
       \<and> ((\<forall>w. \<exists>j. fst (get_job E w jid) = Some j
               \<and> job_status j \<notin> set [''completed'', ''settled'', ''challenged'']) \<longrightarrow>
          (\<exists>w'. wait_for_job_completion E jid timeout poll w0 =
             Some (Inl (TimeoutError (''Job '' @ jid @ '' did not complete within '') timeout), w')
           \<and> timeout \<le> now w' - now w0))"
  unfolding wait_for_transaction_def wait_for_job_completion_def
  using tx_loop_times_out [OF assms(2,3)] job_loop_times_out [OF assms(2,3)]
  by blast

theorem pending_wait_times_out_witness:
  "(0 :: real) < 3 \<and> (0 :: real) < 1 \<and> (\<forall>k. 0 \<le> latency (demo_env ''computing'') k)
   \<and> (\<forall>w. fst (get_transaction_receipt (demo_env ''computing'') w demo_tx_hash) = Inr None)
   \<and> (\<forall>w. \<exists>j. fst (get_job (demo_env ''computing'') w demo_job_id) = Some j
          \<and> job_status j \<notin> set [''completed'', ''settled'', ''challenged''])
   \<and> (\<exists>w'. wait_for_transaction (demo_env ''computing'') demo_tx_hash 3 1 world0 =
          Some (Inl (TimeoutError (''Transaction '' @ demo_tx_hash @ '' not confirmed within '') 3), w')
        \<and> 3 \<le> now w' - now world0)
   \<and> (\<exists>w'. wait_for_job_completion (demo_env ''computing'') demo_job_id 3 1 world0 =
          Some (Inl (TimeoutError (''Job '' @ demo_job_id @ '' did not complete within '') 3), w')
        \<and> 3 \<le> now w' - now world0)"
proof -
  have p: "(0 :: real) < 3" "(0 :: real) < 1" by simp_all
  from pending_wait_times_out [OF p demo_env_latency, where h = demo_tx_hash and ?w0.0 = world0
      and jid = demo_job_id]
    demo_env_receipt [of "''computing''" demo_tx_hash] demo_env_job [of demo_job_id] demo_env_latency
  show ?thesis by simp
qed


end
